theory Spec2Isabelle
  imports Main "HOL-Library.AList" "HOL-Library.Sublist"
begin

section \<open>core/eviction_strategy.py\<close>

datatype EvictionStrategy = LRUStrategy | FIFOStrategy

fun evict :: "EvictionStrategy \<Rightarrow> string" where
  "evict LRUStrategy = ''Evicting least recently used items''"
| "evict FIFOStrategy = ''Evicting oldest items first''"

text \<open>\<open>strategy.__class__.__name__\<close>\<close>

fun class_name :: "EvictionStrategy \<Rightarrow> string" where
  "class_name LRUStrategy = ''LRUStrategy''"
| "class_name FIFOStrategy = ''FIFOStrategy''"

section \<open>Python values and their textual form\<close>

text \<open>
  Configuration fields and resource attributes are dynamically typed in the source. The
  model covers the values the command-line front ends pass (strings, integers, booleans
  and \<open>None\<close>) and the strategy objects that the factory constructs, since a
  constructor stores whatever it is given in whichever attribute the position names.
\<close>

datatype pyval = VStr string | VInt int | VBool bool | VNone | VStrategy EvictionStrategy

text \<open>Python's \<open>str\<close> on a non-negative integer: its decimal digits, most significant first.\<close>

definition digit :: "nat \<Rightarrow> char" where
  "digit d = ''0123456789'' ! d"

function str_nat :: "nat \<Rightarrow> string" where
  "str_nat n = (if n < 10 then [digit n] else str_nat (n div 10) @ [digit (n mod 10)])"
  by pat_completeness auto
termination
  by (relation "measure (\<lambda>n. n)") auto

declare str_nat.simps [simp del]

text \<open>Python's \<open>str\<close> on an integer.\<close>

definition str :: "int \<Rightarrow> string" where
  "str i = (if i < 0 then CHR ''-'' # str_nat (nat (- i)) else str_nat (nat i))"

text \<open>
  What an f-string interpolation \<open>{v}\<close> prints. A strategy object has no \<open>__str__\<close> of its
  own and prints as \<open><src.core.eviction_strategy.LRUStrategy object at 0x...>\<close>; the
  address, which the interpreter chooses, is left out.
\<close>

fun py_str :: "pyval \<Rightarrow> string" where
  "py_str (VStr s) = s"
| "py_str (VInt i) = str i"
| "py_str (VBool b) = (if b then ''True'' else ''False'')"
| "py_str VNone = ''None''"
| "py_str (VStrategy p) = ''<src.core.eviction_strategy.'' @ class_name p @ '' object>''"

text \<open>Truth value of an object in a condition.\<close>

fun truthy :: "pyval \<Rightarrow> bool" where
  "truthy (VStr s) = (s \<noteq> [])"
| "truthy (VInt i) = (i \<noteq> 0)"
| "truthy (VBool b) = b"
| "truthy VNone = False"
| "truthy (VStrategy p) = True"

text \<open>\<open>v.__class__.__name__\<close>\<close>

fun type_name :: "pyval \<Rightarrow> string" where
  "type_name (VStr s) = ''str''"
| "type_name (VInt i) = ''int''"
| "type_name (VBool b) = ''bool''"
| "type_name VNone = ''NoneType''"
| "type_name (VStrategy p) = class_name p"

definition newline :: string where
  "newline = [CHR 0x0A]"

section \<open>Exceptions, console output, results of a call\<close>

datatype error = ValueError string | KeyError string | AttributeError string | TypeError string

text \<open>\<open>str(e)\<close>, as the logging decorator interpolates it.\<close>

fun error_str :: "error \<Rightarrow> string" where
  "error_str (ValueError msg) = msg"
| "error_str (KeyError k) = [CHR 0x27] @ k @ [CHR 0x27]"
| "error_str (AttributeError msg) = msg"
| "error_str (TypeError msg) = msg"

text \<open>
  A line written to the console: \<open>Printed s\<close> is \<open>print(s)\<close>; \<open>Logged s\<close> is the line
  \<open>[LOG <timestamp>] s\<close> of \<open>LoggingDecorator._log\<close>, whose timestamp is the wall clock
  and is left out.
\<close>

datatype line = Printed string | Logged string

text \<open>
  A call either returns a value (\<open>Inr\<close>) or raises (\<open>Inl\<close>); in both cases it has printed
  some lines and left the object it was invoked on in some state.
\<close>

record ('a, 's) run =
  outcome :: "error + 'a"
  printed :: "line list"
  after :: 's

section \<open>core/resource_state.py, core/cloud_resource.py\<close>

datatype ResourceState = CreatedState | RunningState | StoppedState | DeletedState

fun get_state_name :: "ResourceState \<Rightarrow> string" where
  "get_state_name CreatedState = ''CREATED''"
| "get_state_name RunningState = ''RUNNING''"
| "get_state_name StoppedState = ''STOPPED''"
| "get_state_name DeletedState = ''DELETED''"

text \<open>
  The three concrete resource classes and the logging decorator of
  patterns/resource_decorator.py. A decorator owns the resource it wraps and keeps its
  own copies of \<open>id\<close>, \<open>name\<close> and \<open>current_state\<close>, taken when it is constructed. The
  annotation \<open>eviction_policy: EvictionStrategy\<close> of \<open>CacheDB\<close> is not enforced, so that
  attribute holds any value, as the others do.
\<close>

datatype CloudResource =
    AppService (resource_id: pyval) (name: pyval) (current_state: ResourceState)
      (runtime: pyval) (region: pyval) (replica_count: pyval)
  | StorageAccount (resource_id: pyval) (name: pyval) (current_state: ResourceState)
      (encryption_enabled: pyval) (max_size_gb: pyval)
  | CacheDB (resource_id: pyval) (name: pyval) (current_state: ResourceState)
      (ttl_seconds: pyval) (capacity_mb: pyval) (eviction_policy: pyval)
  | LoggingDecorator (resource_id: pyval) (name: pyval) (current_state: ResourceState)
      (wrapped_resource: CloudResource)

text \<open>\<open>CloudResource.set_state\<close>, overridden by \<open>ResourceDecorator.set_state\<close>.\<close>

fun set_state :: "ResourceState \<Rightarrow> CloudResource \<Rightarrow> CloudResource" where
  "set_state st (AppService i n s rt rg rc) = AppService i n st rt rg rc"
| "set_state st (StorageAccount i n s e m) = StorageAccount i n st e m"
| "set_state st (CacheDB i n s t c p) = CacheDB i n st t c p"
| "set_state st (LoggingDecorator i n s w) = LoggingDecorator i n s (set_state st w)"

text \<open>\<open>CloudResource.get_state\<close>, overridden by \<open>ResourceDecorator.get_state\<close>.\<close>

fun get_state :: "CloudResource \<Rightarrow> string" where
  "get_state (LoggingDecorator i n s w) = get_state w"
| "get_state r = get_state_name (current_state r)"

fun get_details :: "CloudResource \<Rightarrow> string" where
  "get_details (AppService i n s rt rg rc) =
     ''AppService['' @ py_str i @ '']: '' @ py_str n @ newline @
     ''  State: '' @ get_state (AppService i n s rt rg rc) @ newline @
     ''  Runtime: '' @ py_str rt @ newline @
     ''  Region: '' @ py_str rg @ newline @
     ''  Replicas: '' @ py_str rc"
| "get_details (StorageAccount i n s e m) =
     ''StorageAccount['' @ py_str i @ '']: '' @ py_str n @ newline @
     ''  State: '' @ get_state (StorageAccount i n s e m) @ newline @
     ''  Encryption: '' @ (if truthy e then ''Enabled'' else ''Disabled'') @ newline @
     ''  Max Size: '' @ py_str m @ ''GB''"
| "get_details (CacheDB i n s t c p) =
     ''CacheDB['' @ py_str i @ '']: '' @ py_str n @ newline @
     ''  State: '' @ get_state (CacheDB i n s t c p) @ newline @
     ''  TTL: '' @ py_str t @ ''s'' @ newline @
     ''  Capacity: '' @ py_str c @ ''MB'' @ newline @
     ''  Eviction: '' @ type_name p"
| "get_details (LoggingDecorator i n s w) = get_details w"

text \<open>
  The \<open>start\<close>, \<open>stop\<close> and \<open>delete\<close> methods of the four state classes. Each receives the
  resource it belongs to; a legal transition prints and calls \<open>set_state\<close>, an illegal
  one raises before touching the resource.
\<close>

fun state_start :: "ResourceState \<Rightarrow> CloudResource \<Rightarrow> (unit, CloudResource) run" where
  "state_start CreatedState r =
     \<lparr>outcome = Inr (), printed = [Printed (''Starting '' @ py_str (name r) @ ''...'')],
      after = set_state RunningState r\<rparr>"
| "state_start RunningState r =
     \<lparr>outcome = Inl (ValueError ''Resource is already running''), printed = [], after = r\<rparr>"
| "state_start StoppedState r =
     \<lparr>outcome = Inr (), printed = [Printed (''Restarting '' @ py_str (name r) @ ''...'')],
      after = set_state RunningState r\<rparr>"
| "state_start DeletedState r =
     \<lparr>outcome = Inl (ValueError ''Cannot start a deleted resource''), printed = [], after = r\<rparr>"

fun state_stop :: "ResourceState \<Rightarrow> CloudResource \<Rightarrow> (unit, CloudResource) run" where
  "state_stop CreatedState r =
     \<lparr>outcome = Inl (ValueError ''Cannot stop a resource that hasn't been started''),
      printed = [], after = r\<rparr>"
| "state_stop RunningState r =
     \<lparr>outcome = Inr (), printed = [Printed (''Stopping '' @ py_str (name r) @ ''...'')],
      after = set_state StoppedState r\<rparr>"
| "state_stop StoppedState r =
     \<lparr>outcome = Inl (ValueError ''Resource is already stopped''), printed = [], after = r\<rparr>"
| "state_stop DeletedState r =
     \<lparr>outcome = Inl (ValueError ''Cannot stop a deleted resource''), printed = [], after = r\<rparr>"

fun state_delete :: "ResourceState \<Rightarrow> CloudResource \<Rightarrow> (unit, CloudResource) run" where
  "state_delete CreatedState r =
     \<lparr>outcome = Inr (), printed = [Printed (''Deleting '' @ py_str (name r) @ ''...'')],
      after = set_state DeletedState r\<rparr>"
| "state_delete RunningState r =
     \<lparr>outcome = Inl (ValueError ''Cannot delete a running resource. Stop it first''),
      printed = [], after = r\<rparr>"
| "state_delete StoppedState r =
     \<lparr>outcome = Inr (), printed = [Printed (''Deleting '' @ py_str (name r) @ ''...'')],
      after = set_state DeletedState r\<rparr>"
| "state_delete DeletedState r =
     \<lparr>outcome = Inl (ValueError ''Resource is already deleted''), printed = [], after = r\<rparr>"

section \<open>patterns/resource_decorator.py\<close>

text \<open>\<open>LoggingDecorator(wrapped_resource)\<close>: the constructor copies three attributes.\<close>

definition new_LoggingDecorator :: "CloudResource \<Rightarrow> CloudResource" where
  "new_LoggingDecorator w = LoggingDecorator (resource_id w) (name w) (current_state w) w"

text \<open>
  The log line that follows the wrapped call: success, or the failure with \<open>str(e)\<close>,
  after which the exception is re-raised.
\<close>

fun log_outcome :: "string \<Rightarrow> string \<Rightarrow> pyval \<Rightarrow> error + unit \<Rightarrow> line" where
  "log_outcome verb done n (Inr u) =
     Logged (''Successfully '' @ done @ '' resource: '' @ py_str n)"
| "log_outcome verb done n (Inl e) =
     Logged (''Failed to '' @ verb @ '' resource: '' @ py_str n @ '' - '' @ error_str e)"

text \<open>
  \<open>start\<close>, \<open>stop\<close> and \<open>delete\<close>: \<open>CloudResource\<close> hands itself to its current state
  object; \<open>LoggingDecorator\<close> logs, forwards to the wrapped resource, logs the outcome and
  lets an exception through.
\<close>

fun start :: "CloudResource \<Rightarrow> (unit, CloudResource) run" where
  "start (LoggingDecorator i n s w) =
     (let r = start w in
      \<lparr>outcome = outcome r,
       printed = [Logged (''Attempting to start resource: '' @ py_str n)] @ printed r @
                 [log_outcome ''start'' ''started'' n (outcome r)],
       after = LoggingDecorator i n s (after r)\<rparr>)"
| "start r = state_start (current_state r) r"

fun stop :: "CloudResource \<Rightarrow> (unit, CloudResource) run" where
  "stop (LoggingDecorator i n s w) =
     (let r = stop w in
      \<lparr>outcome = outcome r,
       printed = [Logged (''Attempting to stop resource: '' @ py_str n)] @ printed r @
                 [log_outcome ''stop'' ''stopped'' n (outcome r)],
       after = LoggingDecorator i n s (after r)\<rparr>)"
| "stop r = state_stop (current_state r) r"

fun delete :: "CloudResource \<Rightarrow> (unit, CloudResource) run" where
  "delete (LoggingDecorator i n s w) =
     (let r = delete w in
      \<lparr>outcome = outcome r,
       printed = [Logged (''Attempting to delete resource: '' @ py_str n)] @ printed r @
                 [log_outcome ''delete'' ''deleted'' n (outcome r)],
       after = LoggingDecorator i n s (after r)\<rparr>)"
| "delete r = state_delete (current_state r) r"

text \<open>The three lifecycle operations as one call, and a sequence of them on one resource.\<close>

datatype operation = Start | Stop | Delete

fun invoke :: "operation \<Rightarrow> CloudResource \<Rightarrow> (unit, CloudResource) run" where
  "invoke Start r = start r"
| "invoke Stop r = stop r"
| "invoke Delete r = delete r"

text \<open>A caller that catches each exception and goes on with the next operation.\<close>

fun invoke_all :: "operation list \<Rightarrow> CloudResource \<Rightarrow> CloudResource" where
  "invoke_all [] r = r"
| "invoke_all (ev # evs) r = invoke_all evs (after (invoke ev r))"

text \<open>\<open>n\<close> logging decorators around a resource.\<close>

fun wrap :: "nat \<Rightarrow> CloudResource \<Rightarrow> CloudResource" where
  "wrap 0 r = r"
| "wrap (Suc n) r = new_LoggingDecorator (wrap n r)"

text \<open>Following \<open>wrapped_resource\<close> \<open>n\<close> times.\<close>

fun unwrap :: "nat \<Rightarrow> CloudResource \<Rightarrow> CloudResource" where
  "unwrap 0 r = r"
| "unwrap (Suc n) r = unwrap n (wrapped_resource r)"

text \<open>
  The state object that answers \<open>get_state\<close>: the one of the innermost wrapped resource.
\<close>

fun lifecycle :: "CloudResource \<Rightarrow> ResourceState" where
  "lifecycle (LoggingDecorator i n s w) = lifecycle w"
| "lifecycle r = current_state r"

section \<open>services/user_repository.py\<close>

record User =
  username :: string
  password :: string
  role :: string

text \<open>
  One entry of the \<open>"users"\<close> array of the JSON file. \<open>User.to_dict\<close> writes all three
  keys; \<open>User.from_dict\<close> reads \<open>"role"\<close> with \<open>data.get("role", "user")\<close>, so an entry may
  lack it.
\<close>

record user_data =
  username_key :: string
  password_key :: string
  role_key :: "string option"

definition to_dict :: "User \<Rightarrow> user_data" where
  "to_dict user =
     \<lparr>username_key = username user, password_key = password user, role_key = Some (role user)\<rparr>"

definition from_dict :: "user_data \<Rightarrow> User" where
  "from_dict data =
     \<lparr>username = username_key data, password = password_key data,
      role = (case role_key data of None \<Rightarrow> ''user'' | Some r \<Rightarrow> r)\<rparr>"

text \<open>
  The files behind the repositories: the \<open>"users"\<close> array stored at each path. A
  \<open>UserRepository\<close> holds only its path and creates the file, with an empty array, when
  it is constructed; repositories with the same path share the file.
\<close>

type_synonym filesystem = "string \<Rightarrow> user_data list"

datatype UserRepository = UserRepository (filepath: string)

definition read_data :: "UserRepository \<Rightarrow> filesystem \<Rightarrow> user_data list" where
  "read_data repo files = files (filepath repo)"

definition write_data :: "UserRepository \<Rightarrow> user_data list \<Rightarrow> filesystem \<Rightarrow> filesystem" where
  "write_data repo data files = files(filepath repo := data)"

text \<open>\<open>add_user\<close> returns the boolean and the files as it leaves them.\<close>

definition add_user :: "UserRepository \<Rightarrow> User \<Rightarrow> filesystem \<Rightarrow> bool \<times> filesystem" where
  "add_user repo user files =
     (let data = read_data repo files in
      if list_ex (\<lambda>u. username_key u = username user) data then (False, files)
      else (True, write_data repo (data @ [to_dict user]) files))"

definition find_by_username :: "UserRepository \<Rightarrow> string \<Rightarrow> filesystem \<Rightarrow> User option" where
  "find_by_username repo uname files =
     map_option from_dict (find (\<lambda>user_data. username_key user_data = uname) (read_data repo files))"

definition get_all_users :: "UserRepository \<Rightarrow> filesystem \<Rightarrow> User list" where
  "get_all_users repo files = map from_dict (read_data repo files)"

section \<open>services/login_service.py\<close>

datatype LoginService =
    FileLogin (repository: UserRepository)
  | ServiceLogin (service_url: string) (api_key: string)

definition quoted :: "string \<Rightarrow> string" where
  "quoted s = [CHR 0x27] @ s @ [CHR 0x27]"

text \<open>\<open>authenticate\<close> returns its boolean and the lines it printed.\<close>

fun authenticate :: "LoginService \<Rightarrow> string \<Rightarrow> string \<Rightarrow> filesystem \<Rightarrow> bool \<times> line list" where
  "authenticate (FileLogin repo) uname pw files =
     (case find_by_username repo uname files of
        None \<Rightarrow> (False, [Printed (''[FileLogin] User '' @ quoted uname @ '' not found'')])
      | Some user \<Rightarrow>
          if password user = pw
          then (True, [Printed (''[FileLogin] User '' @ quoted uname @ '' authenticated successfully'')])
          else (False, [Printed (''[FileLogin] Invalid password for user '' @ quoted uname)]))"
| "authenticate (ServiceLogin url key) uname pw files =
     (let connecting =
        [Printed (''[ServiceLogin] Connecting to '' @ url),
         Printed (''[ServiceLogin] Authenticating user '' @ quoted uname @ '' with API key'')]
      in
      if uname \<noteq> [] \<and> pw \<noteq> []
      then (True, connecting @
              [Printed (''[ServiceLogin] User '' @ quoted uname @ '' authenticated via external service'')])
      else (False, connecting @
              [Printed (''[ServiceLogin] Authentication failed for user '' @ quoted uname)]))"

fun get_service_name :: "LoginService \<Rightarrow> string" where
  "get_service_name (FileLogin repo) = ''File-Based Authentication''"
| "get_service_name (ServiceLogin url key) = ''Service Authentication ('' @ url @ '')''"

section \<open>patterns/resource_factory.py\<close>

text \<open>
  The registry maps a type tag to a class; assignment to a tag that is present rebinds
  it in place, assignment to a new tag appends it. The classes are the three resource
  classes of core/cloud_resource.py.
\<close>

datatype resource_class = AppServiceClass | StorageAccountClass | CacheDBClass

record ResourceFactory =
  registry :: "(string \<times> resource_class) list"

definition register ::
    "string \<Rightarrow> resource_class \<Rightarrow> ResourceFactory \<Rightarrow> (unit, ResourceFactory) run" where
  "register resource_type cls f =
     \<lparr>outcome = Inr (),
      printed = [Printed (''Registered resource type: '' @ resource_type)],
      after = f\<lparr>registry := AList.update resource_type cls (registry f)\<rparr>\<rparr>"

text \<open>\<open>ResourceFactory()\<close>: an empty registry, then \<open>_register_defaults\<close>.\<close>

definition new_ResourceFactory :: ResourceFactory where
  "new_ResourceFactory =
     after (register ''CacheDB'' CacheDBClass
       (after (register ''StorageAccount'' StorageAccountClass
         (after (register ''AppService'' AppServiceClass \<lparr>registry = []\<rparr>)))))"

definition list_available_types :: "ResourceFactory \<Rightarrow> string list" where
  "list_available_types f = map fst (registry f)"

text \<open>A configuration dictionary; \<open>config[k]\<close> raises \<open>KeyError\<close> for a missing key.\<close>

type_synonym config = "(string \<times> pyval) list"

definition item :: "config \<Rightarrow> string \<Rightarrow> error + pyval" where
  "item cfg k = (case map_of cfg k of None \<Rightarrow> Inl (KeyError k) | Some v \<Rightarrow> Inr v)"

definition get_default :: "config \<Rightarrow> string \<Rightarrow> pyval \<Rightarrow> pyval" where
  "get_default cfg k d = (case map_of cfg k of None \<Rightarrow> d | Some v \<Rightarrow> v)"

text \<open>Evaluating the next argument unless an earlier one has raised.\<close>

definition and_then :: "error + 'a \<Rightarrow> ('a \<Rightarrow> error + 'b) \<Rightarrow> error + 'b" where
  "and_then x f = (case x of Inl e \<Rightarrow> Inl e | Inr v \<Rightarrow> f v)"

text \<open>
  Calling a class with five and with four positional arguments, the two ways
  \<open>create_resource\<close> calls the class it has looked up. \<open>AppService\<close> and \<open>CacheDB\<close> take
  five, \<open>StorageAccount\<close> takes four; each stores its arguments in its attributes by
  position and starts in \<open>CreatedState\<close> (\<open>CloudResource.__init__\<close>). A call with the
  wrong number of arguments raises \<open>TypeError\<close>.
\<close>

fun call5 ::
    "resource_class \<Rightarrow> pyval \<Rightarrow> pyval \<Rightarrow> pyval \<Rightarrow> pyval \<Rightarrow> pyval \<Rightarrow> error + CloudResource" where
  "call5 AppServiceClass i n a b c = Inr (AppService i n CreatedState a b c)"
| "call5 StorageAccountClass i n a b c =
     Inl (TypeError ''StorageAccount.__init__() takes 5 positional arguments but 6 were given'')"
| "call5 CacheDBClass i n a b c = Inr (CacheDB i n CreatedState a b c)"

fun call4 ::
    "resource_class \<Rightarrow> pyval \<Rightarrow> pyval \<Rightarrow> pyval \<Rightarrow> pyval \<Rightarrow> error + CloudResource" where
  "call4 AppServiceClass i n a b =
     Inl (TypeError (''AppService.__init__() missing 1 required positional argument: '' @
                     quoted ''replica_count''))"
| "call4 StorageAccountClass i n a b = Inr (StorageAccount i n CreatedState a b)"
| "call4 CacheDBClass i n a b =
     Inl (TypeError (''CacheDB.__init__() missing 1 required positional argument: '' @
                     quoted ''eviction_policy''))"

text \<open>
  \<open>ResourceFactory.create_resource\<close>: the class comes from the registry, the branch and
  with it the arguments from the tag.
\<close>

definition factory_create_resource ::
    "ResourceFactory \<Rightarrow> string \<Rightarrow> config \<Rightarrow> error + CloudResource" where
  "factory_create_resource f resource_type cfg =
     (case map_of (registry f) resource_type of
        None \<Rightarrow> Inl (ValueError (''Unknown resource type: '' @ resource_type))
      | Some cls \<Rightarrow>
          if resource_type = ''AppService'' then
            and_then (item cfg ''id'') (\<lambda>i.
            and_then (item cfg ''name'') (\<lambda>n.
            and_then (item cfg ''runtime'') (\<lambda>rt.
            and_then (item cfg ''region'') (\<lambda>rg.
            and_then (item cfg ''replica_count'') (\<lambda>rc.
              call5 cls i n rt rg rc)))))
          else if resource_type = ''StorageAccount'' then
            and_then (item cfg ''id'') (\<lambda>i.
            and_then (item cfg ''name'') (\<lambda>n.
            and_then (item cfg ''encryption_enabled'') (\<lambda>e.
            and_then (item cfg ''max_size_gb'') (\<lambda>m.
              call4 cls i n e m))))
          else if resource_type = ''CacheDB'' then
            (let policy = get_default cfg ''eviction_policy'' (VStr ''LRU'');
                 strategy = (if policy = VStr ''LRU'' then LRUStrategy else FIFOStrategy)
             in
             and_then (item cfg ''id'') (\<lambda>i.
             and_then (item cfg ''name'') (\<lambda>n.
             and_then (item cfg ''ttl_seconds'') (\<lambda>t.
             and_then (item cfg ''capacity_mb'') (\<lambda>c.
               call5 cls i n t c (VStrategy strategy))))))
          else Inl (ValueError (''Cannot instantiate resource type: '' @ resource_type)))"

section \<open>services/resource_manager.py\<close>

text \<open>
  The manager's resource dictionary is an association list in insertion order;
  assignment to a key replaces the value in place or appends a new entry.
\<close>

record ResourceManager =
  user_repository :: UserRepository
  login_service :: LoginService
  factory :: ResourceFactory
  resources :: "(string \<times> CloudResource) list"
  next_id :: int
  current_user :: "User option"

definition new_ResourceManager :: "UserRepository \<Rightarrow> LoginService \<Rightarrow> ResourceManager" where
  "new_ResourceManager repo service =
     \<lparr>user_repository = repo, login_service = service, factory = new_ResourceFactory,
      resources = [], next_id = 1, current_user = None\<rparr>"

text \<open>
  \<open>login\<close> stores the result of \<open>find_by_username\<close> in \<open>current_user\<close> before it tests
  it for \<open>None\<close>.
\<close>

definition login ::
    "string \<Rightarrow> string \<Rightarrow> filesystem \<Rightarrow> ResourceManager \<Rightarrow> (bool, ResourceManager) run" where
  "login uname pw files m =
     (let (ok, lines) = authenticate (login_service m) uname pw files in
      if ok then
        (let m' = m\<lparr>current_user := find_by_username (user_repository m) uname files\<rparr> in
         case current_user m' of
           None \<Rightarrow>
             \<lparr>outcome = Inr False,
              printed = lines @
                [Printed (''Warning: User '' @ quoted uname @
                          '' authenticated but not found in repository'')],
              after = m'\<rparr>
         | Some user \<Rightarrow>
             \<lparr>outcome = Inr True,
              printed = lines @
                [Printed (''Welcome, '' @ username user @ '' ('' @ role user @ '')'')],
              after = m'\<rparr>)
      else \<lparr>outcome = Inr False, printed = lines, after = m\<rparr>)"

definition logout :: "ResourceManager \<Rightarrow> (unit, ResourceManager) run" where
  "logout m =
     (case current_user m of
        Some user \<Rightarrow>
          \<lparr>outcome = Inr (),
           printed = [Printed (''User '' @ quoted (username user) @ '' logged out'')],
           after = m\<lparr>current_user := None\<rparr>\<rparr>
      | None \<Rightarrow>
          \<lparr>outcome = Inr (), printed = [Printed ''No user is currently logged in''],
           after = m\<rparr>)"

definition is_authenticated :: "ResourceManager \<Rightarrow> bool" where
  "is_authenticated m = (current_user m \<noteq> None)"

text \<open>\<open>register_user\<close> writes to the repository's file only; the state it returns is the files.\<close>

definition register_user ::
    "string \<Rightarrow> string \<Rightarrow> string \<Rightarrow> ResourceManager \<Rightarrow> filesystem \<Rightarrow> (bool, filesystem) run" where
  "register_user uname pw rl m files =
     (let user = \<lparr>username = uname, password = pw, role = rl\<rparr>;
          (added, files') = add_user (user_repository m) user files
      in
      if added
      then \<lparr>outcome = Inr True,
            printed = [Printed (''User '' @ quoted uname @ '' registered successfully'')],
            after = files'\<rparr>
      else \<lparr>outcome = Inr False,
            printed = [Printed (''User '' @ quoted uname @ '' already exists'')],
            after = files'\<rparr>)"

text \<open>
  \<open>create_resource\<close> writes the id into the configuration, asks the factory, wraps the
  resource when logging is enabled, stores it and advances the counter. An exception of
  the factory leaves the manager before anything is stored. The closing message reads
  \<open>self.current_user.username\<close>, which the test at the entry has shown not to be \<open>None\<close>.
\<close>

definition create_resource ::
    "string \<Rightarrow> config \<Rightarrow> bool \<Rightarrow> ResourceManager \<Rightarrow> (string option, ResourceManager) run" where
  "create_resource resource_type cfg enable_logging m =
     (if \<not> is_authenticated m
      then \<lparr>outcome = Inr None,
            printed = [Printed ''Error: You must be logged in to create resources''],
            after = m\<rparr>
      else
        (case factory_create_resource (factory m) resource_type
                (AList.update ''id'' (VStr (str (next_id m))) cfg) of
           Inl e \<Rightarrow> \<lparr>outcome = Inl e, printed = [], after = m\<rparr>
         | Inr created \<Rightarrow>
             (let resource = (if enable_logging then new_LoggingDecorator created else created);
                  rid = str (next_id m);
                  m' = m\<lparr>resources := AList.update rid resource (resources m),
                         next_id := next_id m + 1\<rparr>
              in
              case current_user m of
                Some user \<Rightarrow>
                  \<lparr>outcome = Inr (Some rid),
                   printed = [Printed (''Resource created with ID: '' @ rid @ '' by user: '' @
                                username user)],
                   after = m'\<rparr>
              | None \<Rightarrow>
                  \<lparr>outcome = Inl (AttributeError
                     (quoted ''NoneType'' @ '' object has no attribute '' @ quoted ''username'')),
                   printed = [], after = m'\<rparr>)))"

text \<open>
  \<open>get_resource\<close> has no test of the session. What it returns is the object that the
  collection holds, not a copy.
\<close>

definition get_resource :: "string \<Rightarrow> ResourceManager \<Rightarrow> CloudResource option" where
  "get_resource rid m = map_of (resources m) rid"

text \<open>
  The caller's statement \<open>manager.get_resource(rid).start()\<close>, and the same with \<open>stop\<close>
  and \<open>delete\<close>: the operation acts on the stored object, so the collection holds the
  resource as the operation leaves it. When \<open>get_resource\<close> returns \<open>None\<close> the attribute
  lookup raises.
\<close>

fun method_name :: "operation \<Rightarrow> string" where
  "method_name Start = ''start''"
| "method_name Stop = ''stop''"
| "method_name Delete = ''delete''"

definition on_resource :: "operation \<Rightarrow> string \<Rightarrow> ResourceManager \<Rightarrow> (unit, ResourceManager) run" where
  "on_resource ev rid m =
     (case get_resource rid m of
        Some resource \<Rightarrow>
          (let r = invoke ev resource in
           \<lparr>outcome = outcome r, printed = printed r,
            after = m\<lparr>resources := AList.update rid (after r) (resources m)\<rparr>\<rparr>)
      | None \<Rightarrow>
          \<lparr>outcome = Inl (AttributeError
             (quoted ''NoneType'' @ '' object has no attribute '' @ quoted (method_name ev))),
           printed = [], after = m\<rparr>)"

definition list_resources ::
    "ResourceManager \<Rightarrow> ((string \<times> CloudResource) list, ResourceManager) run" where
  "list_resources m =
     (if \<not> is_authenticated m
      then \<lparr>outcome = Inr [],
            printed = [Printed ''Error: You must be logged in to list resources''],
            after = m\<rparr>
      else \<lparr>outcome = Inr (resources m), printed = [], after = m\<rparr>)"

text \<open>
  \<open>start_resource\<close>, \<open>stop_resource\<close> and \<open>delete_resource\<close> differ in the word of their
  messages and in the operation they invoke on the stored resource, which changes in
  place; its exception is not caught.
\<close>

definition lifecycle_call ::
    "string \<Rightarrow> operation \<Rightarrow> string \<Rightarrow> ResourceManager \<Rightarrow> (bool, ResourceManager) run" where
  "lifecycle_call verb ev rid m =
     (if \<not> is_authenticated m
      then \<lparr>outcome = Inr False,
            printed = [Printed (''Error: You must be logged in to '' @ verb @ '' resources'')],
            after = m\<rparr>
      else
        (case get_resource rid m of
           Some resource \<Rightarrow>
             (let r = invoke ev resource in
              \<lparr>outcome = (case outcome r of Inl e \<Rightarrow> Inl e | Inr u \<Rightarrow> Inr True),
               printed = printed r,
               after = m\<lparr>resources := AList.update rid (after r) (resources m)\<rparr>\<rparr>)
         | None \<Rightarrow>
             \<lparr>outcome = Inr False, printed = [Printed (''Resource '' @ rid @ '' not found'')],
              after = m\<rparr>))"

definition start_resource :: "string \<Rightarrow> ResourceManager \<Rightarrow> (bool, ResourceManager) run" where
  "start_resource rid m = lifecycle_call ''start'' Start rid m"

definition stop_resource :: "string \<Rightarrow> ResourceManager \<Rightarrow> (bool, ResourceManager) run" where
  "stop_resource rid m = lifecycle_call ''stop'' Stop rid m"

definition delete_resource :: "string \<Rightarrow> ResourceManager \<Rightarrow> (bool, ResourceManager) run" where
  "delete_resource rid m = lifecycle_call ''delete'' Delete rid m"

definition get_resource_details ::
    "string \<Rightarrow> ResourceManager \<Rightarrow> (string option, ResourceManager) run" where
  "get_resource_details rid m =
     (if \<not> is_authenticated m
      then \<lparr>outcome = Inr None,
            printed = [Printed ''Error: You must be logged in to view resource details''],
            after = m\<rparr>
      else
        (case get_resource rid m of
           Some resource \<Rightarrow>
             \<lparr>outcome = Inr (Some (get_details resource)), printed = [], after = m\<rparr>
         | None \<Rightarrow>
             \<lparr>outcome = Inr None, printed = [Printed (''Resource '' @ rid @ '' not found'')],
              after = m\<rparr>))"

section \<open>A manager in use\<close>

text \<open>
  The manager together with the files its repository and its login service read. A call
  names one public method of \<open>ResourceManager\<close> with its arguments, or an operation on
  the object that \<open>get_resource\<close> hands out for an id. From a newly constructed manager
  on, no method removes an entry of the collection or binds its id to another object, so
  the object a caller has obtained for an id is at any later time the one that
  \<open>get_resource\<close> returns for that id.
\<close>

record world =
  files :: filesystem
  mgr :: ResourceManager

datatype call =
    Login string string
  | Logout
  | IsAuthenticated
  | RegisterUser string string string
  | CreateResource string config bool
  | GetResource string
  | ListResources
  | StartResource string
  | StopResource string
  | DeleteResource string
  | GetResourceDetails string
  | OnResource string operation

text \<open>
  What a call returns. \<open>RHandle rid\<close> is the reference that \<open>get_resource\<close> returns: the
  object stored under \<open>rid\<close>.
\<close>

datatype ret =
    RNone
  | RBool bool
  | RStr string
  | RHandle string
  | RResources "(string \<times> CloudResource) list"

definition opt_ret :: "('a \<Rightarrow> ret) \<Rightarrow> 'a option \<Rightarrow> ret" where
  "opt_ret f x = (case x of None \<Rightarrow> RNone | Some v \<Rightarrow> f v)"

text \<open>The result of a manager method, as a result of the call on the world.\<close>

definition on_mgr :: "world \<Rightarrow> ('a \<Rightarrow> ret) \<Rightarrow> ('a, ResourceManager) run \<Rightarrow> (ret, world) run" where
  "on_mgr w f r =
     \<lparr>outcome = map_sum id f (outcome r), printed = printed r, after = w\<lparr>mgr := after r\<rparr>\<rparr>"

fun exec :: "call \<Rightarrow> world \<Rightarrow> (ret, world) run" where
  "exec (Login uname pw) w = on_mgr w RBool (login uname pw (files w) (mgr w))"
| "exec Logout w = on_mgr w (\<lambda>u. RNone) (logout (mgr w))"
| "exec IsAuthenticated w =
     \<lparr>outcome = Inr (RBool (is_authenticated (mgr w))), printed = [], after = w\<rparr>"
| "exec (RegisterUser uname pw rl) w =
     (let r = register_user uname pw rl (mgr w) (files w) in
      \<lparr>outcome = map_sum id RBool (outcome r), printed = printed r,
       after = w\<lparr>files := after r\<rparr>\<rparr>)"
| "exec (CreateResource resource_type cfg enable_logging) w =
     on_mgr w (opt_ret RStr) (create_resource resource_type cfg enable_logging (mgr w))"
| "exec (GetResource rid) w =
     \<lparr>outcome = Inr (opt_ret (\<lambda>resource. RHandle rid) (get_resource rid (mgr w))),
      printed = [], after = w\<rparr>"
| "exec ListResources w = on_mgr w RResources (list_resources (mgr w))"
| "exec (StartResource rid) w = on_mgr w RBool (start_resource rid (mgr w))"
| "exec (StopResource rid) w = on_mgr w RBool (stop_resource rid (mgr w))"
| "exec (DeleteResource rid) w = on_mgr w RBool (delete_resource rid (mgr w))"
| "exec (GetResourceDetails rid) w =
     on_mgr w (opt_ret RStr) (get_resource_details rid (mgr w))"
| "exec (OnResource rid ev) w = on_mgr w (\<lambda>u. RNone) (on_resource ev rid (mgr w))"

text \<open>
  The worlds a program can reach: it constructs a manager, calls its methods (going on
  after an exception), and meanwhile the files may change and the login service may be
  replaced, as the command-line front end does when it switches to service login.
\<close>

inductive reachable :: "world \<Rightarrow> bool" where
  constructed: "reachable \<lparr>files = fs, mgr = new_ResourceManager repo service\<rparr>"
| called: "reachable w \<Longrightarrow> reachable (after (exec c w))"
| files_changed: "reachable w \<Longrightarrow> reachable (w\<lparr>files := fs\<rparr>)"
| service_replaced:
    "reachable w \<Longrightarrow> reachable (w\<lparr>mgr := (mgr w)\<lparr>login_service := service\<rparr>\<rparr>)"

text \<open>A sequence of calls, and the ids that its successful \<open>create_resource\<close> calls return.\<close>

fun exec_all :: "call list \<Rightarrow> world \<Rightarrow> world" where
  "exec_all [] w = w"
| "exec_all (c # cs) w = exec_all cs (after (exec c w))"

fun created_id :: "call \<Rightarrow> error + ret \<Rightarrow> string list" where
  "created_id (CreateResource resource_type cfg enable_logging) (Inr (RStr rid)) = [rid]"
| "created_id c x = []"

fun created_ids :: "call list \<Rightarrow> world \<Rightarrow> string list" where
  "created_ids [] w = []"
| "created_ids (c # cs) w =
     created_id c (outcome (exec c w)) @ created_ids cs (after (exec c w))"

section \<open>Notions used in the statements and proofs\<close>

text \<open>Reading a decimal numeral back: the value of a digit and of a digit string.\<close>

definition digit_val :: "char \<Rightarrow> nat" where
  "digit_val c = of_char c - 48"

definition digits_val :: "string \<Rightarrow> nat" where
  "digits_val s = foldl (\<lambda>a c. 10 * a + digit_val c) 0 s"

text \<open>
  The strategy that the \<open>CacheDB\<close> branch of the factory builds from a configuration:
  \<open>LRUStrategy\<close> when the key \<open>eviction_policy\<close> is missing or holds the string \<open>LRU\<close>,
  \<open>FIFOStrategy\<close> for every other value.
\<close>

definition chosen_strategy :: "config \<Rightarrow> EvictionStrategy" where
  "chosen_strategy cfg =
     (if map_of cfg ''eviction_policy'' = None \<or> map_of cfg ''eviction_policy'' = Some (VStr ''LRU'')
      then LRUStrategy else FIFOStrategy)"

text \<open>
  Every id in the collection is the numeral of a counter value that has been passed: the
  manager has issued ids below \<open>next_id\<close> only.
\<close>

definition issued_below :: "ResourceManager \<Rightarrow> bool" where
  "issued_below m \<longleftrightarrow> (\<forall>k \<in> set (map fst (resources m)). \<exists>j. j < next_id m \<and> k = str j)"

section \<open>The lifecycle state machine\<close>

lemma get_state_lifecycle: "get_state r = get_state_name (lifecycle r)"
  by (induction r) simp_all

lemma get_state_name_lits:
  "get_state_name s = ''CREATED'' \<longleftrightarrow> s = CreatedState"
  "get_state_name s = ''RUNNING'' \<longleftrightarrow> s = RunningState"
  "get_state_name s = ''STOPPED'' \<longleftrightarrow> s = StoppedState"
  "get_state_name s = ''DELETED'' \<longleftrightarrow> s = DeletedState"
  by (cases s; simp)+

lemma lifecycle_set_state [simp]: "lifecycle (set_state st r) = st"
  by (induction r) simp_all

lemma state_start_fail: "outcome (state_start s r) = Inl e \<Longrightarrow> after (state_start s r) = r"
  by (cases s) simp_all

lemma state_stop_fail: "outcome (state_stop s r) = Inl e \<Longrightarrow> after (state_stop s r) = r"
  by (cases s) simp_all

lemma state_delete_fail: "outcome (state_delete s r) = Inl e \<Longrightarrow> after (state_delete s r) = r"
  by (cases s) simp_all

lemma start_fail: "outcome (start r) = Inl e \<Longrightarrow> after (start r) = r"
  by (induction r) (simp_all add: Let_def state_start_fail)

lemma stop_fail: "outcome (stop r) = Inl e \<Longrightarrow> after (stop r) = r"
  by (induction r) (simp_all add: Let_def state_stop_fail)

lemma delete_fail: "outcome (delete r) = Inl e \<Longrightarrow> after (delete r) = r"
  by (induction r) (simp_all add: Let_def state_delete_fail)

lemma state_start_outcome:
  "outcome (state_start s r) =
     (case s of CreatedState \<Rightarrow> Inr () | StoppedState \<Rightarrow> Inr ()
      | RunningState \<Rightarrow> Inl (ValueError ''Resource is already running'')
      | DeletedState \<Rightarrow> Inl (ValueError ''Cannot start a deleted resource''))"
  by (cases s) simp_all

lemma state_start_after:
  "lifecycle (after (state_start s r)) =
     (case s of CreatedState \<Rightarrow> RunningState | StoppedState \<Rightarrow> RunningState
      | RunningState \<Rightarrow> lifecycle r | DeletedState \<Rightarrow> lifecycle r)"
  by (cases s) simp_all

lemma start_outcome:
  "outcome (start r) =
     (case lifecycle r of CreatedState \<Rightarrow> Inr () | StoppedState \<Rightarrow> Inr ()
      | RunningState \<Rightarrow> Inl (ValueError ''Resource is already running'')
      | DeletedState \<Rightarrow> Inl (ValueError ''Cannot start a deleted resource''))"
  by (induction r) (simp_all add: Let_def state_start_outcome)

lemma start_after:
  "lifecycle (after (start r)) =
     (case lifecycle r of CreatedState \<Rightarrow> RunningState | StoppedState \<Rightarrow> RunningState
      | RunningState \<Rightarrow> RunningState | DeletedState \<Rightarrow> DeletedState)"
  by (induction r) (simp_all add: Let_def state_start_after split: ResourceState.splits)

lemma state_stop_outcome:
  "outcome (state_stop s r) =
     (case s of RunningState \<Rightarrow> Inr ()
      | CreatedState \<Rightarrow> Inl (ValueError ''Cannot stop a resource that hasn't been started'')
      | StoppedState \<Rightarrow> Inl (ValueError ''Resource is already stopped'')
      | DeletedState \<Rightarrow> Inl (ValueError ''Cannot stop a deleted resource''))"
  by (cases s) simp_all

lemma state_stop_after:
  "lifecycle (after (state_stop s r)) =
     (case s of RunningState \<Rightarrow> StoppedState | CreatedState \<Rightarrow> lifecycle r
      | StoppedState \<Rightarrow> lifecycle r | DeletedState \<Rightarrow> lifecycle r)"
  by (cases s) simp_all

lemma stop_outcome:
  "outcome (stop r) =
     (case lifecycle r of RunningState \<Rightarrow> Inr ()
      | CreatedState \<Rightarrow> Inl (ValueError ''Cannot stop a resource that hasn't been started'')
      | StoppedState \<Rightarrow> Inl (ValueError ''Resource is already stopped'')
      | DeletedState \<Rightarrow> Inl (ValueError ''Cannot stop a deleted resource''))"
  by (induction r) (simp_all add: Let_def state_stop_outcome)

lemma stop_after:
  "lifecycle (after (stop r)) =
     (case lifecycle r of RunningState \<Rightarrow> StoppedState | CreatedState \<Rightarrow> CreatedState
      | StoppedState \<Rightarrow> StoppedState | DeletedState \<Rightarrow> DeletedState)"
  by (induction r) (simp_all add: Let_def state_stop_after split: ResourceState.splits)

lemma state_delete_outcome:
  "outcome (state_delete s r) =
     (case s of CreatedState \<Rightarrow> Inr () | StoppedState \<Rightarrow> Inr ()
      | RunningState \<Rightarrow> Inl (ValueError ''Cannot delete a running resource. Stop it first'')
      | DeletedState \<Rightarrow> Inl (ValueError ''Resource is already deleted''))"
  by (cases s) simp_all

lemma state_delete_after:
  "lifecycle (after (state_delete s r)) =
     (case s of CreatedState \<Rightarrow> DeletedState | StoppedState \<Rightarrow> DeletedState
      | RunningState \<Rightarrow> lifecycle r | DeletedState \<Rightarrow> lifecycle r)"
  by (cases s) simp_all

lemma delete_outcome:
  "outcome (delete r) =
     (case lifecycle r of CreatedState \<Rightarrow> Inr () | StoppedState \<Rightarrow> Inr ()
      | RunningState \<Rightarrow> Inl (ValueError ''Cannot delete a running resource. Stop it first'')
      | DeletedState \<Rightarrow> Inl (ValueError ''Resource is already deleted''))"
  by (induction r) (simp_all add: Let_def state_delete_outcome)

lemma delete_after:
  "lifecycle (after (delete r)) =
     (case lifecycle r of CreatedState \<Rightarrow> DeletedState | StoppedState \<Rightarrow> DeletedState
      | RunningState \<Rightarrow> RunningState | DeletedState \<Rightarrow> DeletedState)"
  by (induction r) (simp_all add: Let_def state_delete_after split: ResourceState.splits)

lemma invoke_fail: "outcome (invoke ev r) = Inl e \<Longrightarrow> after (invoke ev r) = r"
  by (cases ev) (simp_all add: start_fail stop_fail delete_fail)

text \<open>
  Claim C1. Every resource, decorated or not, follows the transition table: \<open>start\<close> succeeds
  from CREATED and STOPPED and leads to RUNNING, and fails from RUNNING and DELETED; \<open>stop\<close>
  succeeds from RUNNING only and leads to STOPPED; \<open>delete\<close> succeeds from CREATED and
  STOPPED and leads to DELETED, and fails from RUNNING and DELETED. An operation that
  raises leaves the resource as it was.
\<close>

theorem lifecycle_transition_table:
  "(get_state r = ''CREATED'' \<or> get_state r = ''STOPPED'' \<longrightarrow>
      outcome (start r) = Inr () \<and> get_state (after (start r)) = ''RUNNING'') \<and>
   (get_state r = ''RUNNING'' \<or> get_state r = ''DELETED'' \<longrightarrow>
      (\<exists>e. outcome (start r) = Inl e)) \<and>
   (get_state r = ''RUNNING'' \<longrightarrow>
      outcome (stop r) = Inr () \<and> get_state (after (stop r)) = ''STOPPED'') \<and>
   (get_state r = ''CREATED'' \<or> get_state r = ''STOPPED'' \<or> get_state r = ''DELETED'' \<longrightarrow>
      (\<exists>e. outcome (stop r) = Inl e)) \<and>
   (get_state r = ''CREATED'' \<or> get_state r = ''STOPPED'' \<longrightarrow>
      outcome (delete r) = Inr () \<and> get_state (after (delete r)) = ''DELETED'') \<and>
   (get_state r = ''RUNNING'' \<or> get_state r = ''DELETED'' \<longrightarrow>
      (\<exists>e. outcome (delete r) = Inl e)) \<and>
   (\<forall>ev e. outcome (invoke ev r) = Inl e \<longrightarrow>
      after (invoke ev r) = r \<and> get_state (after (invoke ev r)) = get_state r)"
proof -
  have fail: "\<forall>ev e. outcome (invoke ev r) = Inl e \<longrightarrow>
      after (invoke ev r) = r \<and> get_state (after (invoke ev r)) = get_state r"
    by (simp add: invoke_fail)
  show ?thesis
    by (cases "lifecycle r")
       (simp_all add: fail get_state_lifecycle start_outcome start_after stop_outcome
          stop_after delete_outcome delete_after del: invoke.simps)
qed

theorem lifecycle_transition_table_witness:
  "outcome (start (AppService (VStr ''1'') (VStr ''web'') CreatedState (VStr ''py'') (VStr ''eu'') (VInt 3))) = Inr () \<and>
   get_state (after (start (LoggingDecorator (VStr ''2'') (VStr ''db'') CreatedState
       (CacheDB (VStr ''2'') (VStr ''db'') StoppedState (VInt 60) (VInt 8) (VStrategy LRUStrategy))))) = ''RUNNING'' \<and>
   (\<exists>e. outcome (stop (StorageAccount (VStr ''3'') (VStr ''st'') DeletedState (VBool True) (VInt 5))) = Inl e) \<and>
   after (invoke Delete (StorageAccount (VStr ''3'') (VStr ''st'') RunningState (VBool True) (VInt 5)))
     = StorageAccount (VStr ''3'') (VStr ''st'') RunningState (VBool True) (VInt 5)"
  using
    lifecycle_transition_table [of "AppService (VStr ''1'') (VStr ''web'') CreatedState (VStr ''py'') (VStr ''eu'') (VInt 3)"]
    lifecycle_transition_table [of "LoggingDecorator (VStr ''2'') (VStr ''db'') CreatedState
       (CacheDB (VStr ''2'') (VStr ''db'') StoppedState (VInt 60) (VInt 8) (VStrategy LRUStrategy))"]
    lifecycle_transition_table [of "StorageAccount (VStr ''3'') (VStr ''st'') DeletedState (VBool True) (VInt 5)"]
    lifecycle_transition_table [of "StorageAccount (VStr ''3'') (VStr ''st'') RunningState (VBool True) (VInt 5)"]
  by simp

lemma invoke_deleted:
  "lifecycle r = DeletedState \<Longrightarrow> after (invoke ev r) = r"
  by (cases ev) (auto intro: start_fail stop_fail delete_fail simp: start_outcome stop_outcome delete_outcome)

lemma invoke_all_deleted:
  "lifecycle r = DeletedState \<Longrightarrow> invoke_all evs r = r"
  by (induction evs) (simp_all add: invoke_deleted del: invoke.simps)

text \<open>
  Claim C7. On a resource whose state is DELETED, \<open>start\<close>, \<open>stop\<close> and \<open>delete\<close> each raise
  the \<open>ValueError\<close> of \<open>DeletedState\<close>, and the state stays DELETED after any one operation
  and after any sequence of them.
\<close>

theorem deleted_is_terminal:
  assumes "get_state r = ''DELETED''"
  shows "outcome (start r) = Inl (ValueError ''Cannot start a deleted resource'') \<and>
         outcome (stop r) = Inl (ValueError ''Cannot stop a deleted resource'') \<and>
         outcome (delete r) = Inl (ValueError ''Resource is already deleted'') \<and>
         (\<forall>ev. get_state (after (invoke ev r)) = ''DELETED'') \<and>
         (\<forall>evs. get_state (invoke_all evs r) = ''DELETED'')"
proof -
  from assms have d: "lifecycle r = DeletedState"
    by (simp add: get_state_lifecycle get_state_name_lits)
  show ?thesis
    using assms by (simp add: d start_outcome stop_outcome delete_outcome
        invoke_deleted invoke_all_deleted del: invoke.simps)
qed

theorem deleted_is_terminal_witness:
  "get_state (after (delete (CacheDB (VStr ''7'') (VStr ''c'') StoppedState (VInt 1) (VInt 2) (VStrategy FIFOStrategy)))) = ''DELETED'' \<and>
   outcome (start (after (delete (CacheDB (VStr ''7'') (VStr ''c'') StoppedState (VInt 1) (VInt 2) (VStrategy FIFOStrategy)))))
     = Inl (ValueError ''Cannot start a deleted resource'') \<and>
   get_state (invoke_all [Start, Stop, Delete, Start]
     (after (delete (CacheDB (VStr ''7'') (VStr ''c'') StoppedState (VInt 1) (VInt 2) (VStrategy FIFOStrategy))))) = ''DELETED''"
proof -
  have h: "get_state (after (delete (CacheDB (VStr ''7'') (VStr ''c'') StoppedState (VInt 1) (VInt 2) (VStrategy FIFOStrategy)))) = ''DELETED''"
    by simp
  show ?thesis
    using h deleted_is_terminal [OF h] by blast
qed

lemma invoke_new_LoggingDecorator:
  "outcome (invoke ev (new_LoggingDecorator w)) = outcome (invoke ev w)"
  "wrapped_resource (after (invoke ev (new_LoggingDecorator w))) = after (invoke ev w)"
  by (cases ev; simp add: new_LoggingDecorator_def Let_def)+

lemma get_new_LoggingDecorator [simp]:
  "get_state (new_LoggingDecorator w) = get_state w"
  "get_details (new_LoggingDecorator w) = get_details w"
  by (simp_all add: new_LoggingDecorator_def)

lemma get_wrap: "get_state (wrap n r) = get_state r" "get_details (wrap n r) = get_details r"
  by (induction n) simp_all

lemma invoke_wrap:
  "outcome (invoke ev (wrap n r)) = outcome (invoke ev r)"
  "unwrap n (after (invoke ev (wrap n r))) = after (invoke ev r)"
  by (induction n) (simp_all add: invoke_new_LoggingDecorator del: invoke.simps)

lemma get_after_decorated:
  "get_state (after (invoke ev (new_LoggingDecorator w))) = get_state (after (invoke ev w))"
  "get_details (after (invoke ev (new_LoggingDecorator w))) = get_details (after (invoke ev w))"
  by (cases ev; simp add: new_LoggingDecorator_def Let_def)+

lemma get_after_wrap:
  "get_state (after (invoke ev (wrap n r))) = get_state (after (invoke ev r))"
  "get_details (after (invoke ev (wrap n r))) = get_details (after (invoke ev r))"
  by (induction n) (simp_all add: get_after_decorated del: invoke.simps)

text \<open>
  Claim C4. Behind \<open>n\<close> logging decorators, \<open>start\<close>, \<open>stop\<close> and \<open>delete\<close> return or raise
  exactly what they do on the bare resource, the resource under the decorators ends as
  the bare one does, and \<open>get_state\<close> and \<open>get_details\<close> give the same answers before and
  after the call.
\<close>

theorem logging_decorator_transparent:
  "outcome (invoke ev (wrap n r)) = outcome (invoke ev r) \<and>
   unwrap n (after (invoke ev (wrap n r))) = after (invoke ev r) \<and>
   get_state (after (invoke ev (wrap n r))) = get_state (after (invoke ev r)) \<and>
   get_details (after (invoke ev (wrap n r))) = get_details (after (invoke ev r)) \<and>
   get_state (wrap n r) = get_state r \<and>
   get_details (wrap n r) = get_details r"
  by (simp add: invoke_wrap get_after_wrap get_wrap del: invoke.simps)

section \<open>Decimal numerals are read back uniquely\<close>

lemma digit_val_digit: "d < 10 \<Longrightarrow> digit_val (digit d) = d"
proof -
  assume "d < 10"
  then have "d \<in> {0,1,2,3,4,5,6,7,8,9}" by auto
  then show ?thesis by (auto simp: digit_def digit_val_def)
qed

lemma digit_not_minus: "d < 10 \<Longrightarrow> digit d \<noteq> CHR ''-''"
proof -
  assume "d < 10"
  then have "d \<in> {0,1,2,3,4,5,6,7,8,9}" by auto
  then show ?thesis by (auto simp: digit_def)
qed

lemma digits_val_str_nat: "digits_val (str_nat n) = n"
proof (induction n rule: str_nat.induct)
  case (1 n)
  show ?case
  proof (cases "n < 10")
    case True
    then show ?thesis by (simp add: str_nat.simps [of n] digits_val_def digit_val_digit)
  next
    case False
    with 1 have "digits_val (str_nat (n div 10)) = n div 10" by simp
    with False show ?thesis
      by (simp add: str_nat.simps [of n] digits_val_def digit_val_digit)
  qed
qed

lemma str_nat_inj: "str_nat a = str_nat b \<Longrightarrow> a = b"
  by (metis digits_val_str_nat)

lemma hd_str_nat: "str_nat n \<noteq> [] \<and> hd (str_nat n) \<noteq> CHR ''-''"
proof (induction n rule: str_nat.induct)
  case (1 n)
  show ?case
  proof (cases "n < 10")
    case True
    then show ?thesis by (simp add: str_nat.simps [of n] digit_not_minus)
  next
    case False
    with 1 have "str_nat (n div 10) \<noteq> [] \<and> hd (str_nat (n div 10)) \<noteq> CHR ''-''" by simp
    with False show ?thesis
      by (simp add: str_nat.simps [of n])
  qed
qed

lemma str_inj: "str a = str b \<Longrightarrow> a = b"
proof -
  assume eq: "str a = str b"
  have neg: "\<And>x y. CHR ''-'' # str_nat x \<noteq> str_nat y"
    using hd_str_nat by (metis list.sel(1))
  show ?thesis
  proof (cases "a < 0"; cases "b < 0")
    assume "a < 0" "b < 0"
    with eq have "nat (- a) = nat (- b)" by (auto simp: str_def dest: str_nat_inj)
    with \<open>a < 0\<close> \<open>b < 0\<close> show ?thesis by simp
  next
    assume "a < 0" "\<not> b < 0"
    with eq neg show ?thesis by (simp add: str_def)
  next
    assume "\<not> a < 0" "b < 0"
    with eq neg [of "nat (- b)" "nat a"] show ?thesis by (simp add: str_def)
  next
    assume "\<not> a < 0" "\<not> b < 0"
    with eq have "nat a = nat b" by (auto simp: str_def dest: str_nat_inj)
    with \<open>\<not> a < 0\<close> \<open>\<not> b < 0\<close> show ?thesis by simp
  qed
qed

lemma str_small: "str 1 = ''1''" "str 2 = ''2''" "str 3 = ''3''"
  by (simp_all add: str_def str_nat.simps digit_def)

section \<open>The factory\<close>

lemma and_then_Inr: "and_then x f = Inr r \<longleftrightarrow> (\<exists>v. x = Inr v \<and> f v = Inr r)"
  by (cases x) (simp_all add: and_then_def)

lemma item_Inr: "item cfg k = Inr v \<longleftrightarrow> map_of cfg k = Some v"
  by (simp add: item_def split: option.splits)

lemma registry_new:
  "registry new_ResourceFactory =
     [(''AppService'', AppServiceClass), (''StorageAccount'', StorageAccountClass),
      (''CacheDB'', CacheDBClass)]"
  by (simp add: new_ResourceFactory_def register_def)

lemma cachedb_branch:
  "factory_create_resource f ''CacheDB'' cfg =
     (case map_of (registry f) ''CacheDB'' of
        None \<Rightarrow> Inl (ValueError ''Unknown resource type: CacheDB'')
      | Some cls \<Rightarrow>
          and_then (item cfg ''id'') (\<lambda>i.
          and_then (item cfg ''name'') (\<lambda>n.
          and_then (item cfg ''ttl_seconds'') (\<lambda>t.
          and_then (item cfg ''capacity_mb'') (\<lambda>c.
            call5 cls i n t c (VStrategy (chosen_strategy cfg)))))))"
  by (auto simp: factory_create_resource_def chosen_strategy_def get_default_def Let_def
      split: option.splits)

lemma call5_Inr:
  "call5 cls i n a b c = Inr r \<longleftrightarrow>
     cls = AppServiceClass \<and> r = AppService i n CreatedState a b c \<or>
     cls = CacheDBClass \<and> r = CacheDB i n CreatedState a b c"
  by (cases cls) auto

text \<open>
  Claim C2, amended. In a \<open>create_resource\<close> call of the factory with the tag \<open>CacheDB\<close>,
  the strategy that the factory builds and hands to the registered class is LRU exactly
  when the \<open>eviction_policy\<close> field is missing or is the string \<open>LRU\<close>, and FIFO exactly
  when the field is present with any other value, the lowercase \<open>lru\<close> among them. Where
  the tag is bound to the class \<open>CacheDB\<close>, as in a new factory, every resource the call
  returns is a \<open>CacheDB\<close> in state CREATED with that strategy as its eviction policy, and
  the call returns one whenever the four required fields are present. Where the tag has
  been bound to another class, a resource is returned only by \<open>AppService\<close>, which
  receives the strategy as its last argument.
\<close>

theorem cachedb_eviction_strategy:
  "(map_of (registry f) ''CacheDB'' = Some CacheDBClass \<longrightarrow>
      (\<forall>r. factory_create_resource f ''CacheDB'' cfg = Inr r \<longrightarrow>
         (\<exists>i n t c. r = CacheDB i n CreatedState t c (VStrategy (chosen_strategy cfg)))) \<and>
      (map_of cfg ''id'' = Some i \<and> map_of cfg ''name'' = Some n \<and>
       map_of cfg ''ttl_seconds'' = Some t \<and> map_of cfg ''capacity_mb'' = Some c \<longrightarrow>
         factory_create_resource f ''CacheDB'' cfg
           = Inr (CacheDB i n CreatedState t c (VStrategy (chosen_strategy cfg))))) \<and>
   (\<forall>r. factory_create_resource f ''CacheDB'' cfg = Inr r \<longrightarrow>
      (\<exists>i n t c.
         map_of (registry f) ''CacheDB'' = Some CacheDBClass \<and>
           r = CacheDB i n CreatedState t c (VStrategy (chosen_strategy cfg)) \<or>
         map_of (registry f) ''CacheDB'' = Some AppServiceClass \<and>
           r = AppService i n CreatedState t c (VStrategy (chosen_strategy cfg)))) \<and>
   (chosen_strategy cfg = LRUStrategy \<longleftrightarrow>
      map_of cfg ''eviction_policy'' = None \<or> map_of cfg ''eviction_policy'' = Some (VStr ''LRU'')) \<and>
   (chosen_strategy cfg = FIFOStrategy \<longleftrightarrow>
      (\<exists>v. map_of cfg ''eviction_policy'' = Some v \<and> v \<noteq> VStr ''LRU''))"
proof -
  have general: "\<forall>r. factory_create_resource f ''CacheDB'' cfg = Inr r \<longrightarrow>
      (\<exists>i n t c.
         map_of (registry f) ''CacheDB'' = Some CacheDBClass \<and>
           r = CacheDB i n CreatedState t c (VStrategy (chosen_strategy cfg)) \<or>
         map_of (registry f) ''CacheDB'' = Some AppServiceClass \<and>
           r = AppService i n CreatedState t c (VStrategy (chosen_strategy cfg)))"
    by (auto simp: cachedb_branch and_then_Inr call5_Inr split: option.splits)
  have bound: "map_of (registry f) ''CacheDB'' = Some CacheDBClass \<longrightarrow>
      (\<forall>r. factory_create_resource f ''CacheDB'' cfg = Inr r \<longrightarrow>
         (\<exists>i n t c. r = CacheDB i n CreatedState t c (VStrategy (chosen_strategy cfg))))"
    using general by auto
  have returns: "map_of (registry f) ''CacheDB'' = Some CacheDBClass \<longrightarrow>
      (map_of cfg ''id'' = Some i \<and> map_of cfg ''name'' = Some n \<and>
       map_of cfg ''ttl_seconds'' = Some t \<and> map_of cfg ''capacity_mb'' = Some c \<longrightarrow>
         factory_create_resource f ''CacheDB'' cfg
           = Inr (CacheDB i n CreatedState t c (VStrategy (chosen_strategy cfg))))"
    by (simp add: cachedb_branch and_then_def item_def)
  have lru: "chosen_strategy cfg = LRUStrategy \<longleftrightarrow>
      map_of cfg ''eviction_policy'' = None \<or> map_of cfg ''eviction_policy'' = Some (VStr ''LRU'')"
    by (simp add: chosen_strategy_def)
  have fifo: "chosen_strategy cfg = FIFOStrategy \<longleftrightarrow>
      (\<exists>v. map_of cfg ''eviction_policy'' = Some v \<and> v \<noteq> VStr ''LRU'')"
    by (auto simp: chosen_strategy_def)
  from general bound returns lru fifo show ?thesis by blast
qed

theorem cachedb_eviction_strategy_witness:
  "map_of (registry new_ResourceFactory) ''CacheDB'' = Some CacheDBClass \<and>
   factory_create_resource new_ResourceFactory ''CacheDB''
     [(''id'', VStr ''1''), (''name'', VStr ''c''), (''ttl_seconds'', VInt 60),
      (''capacity_mb'', VInt 8), (''eviction_policy'', VStr ''lru'')]
   = Inr (CacheDB (VStr ''1'') (VStr ''c'') CreatedState (VInt 60) (VInt 8) (VStrategy FIFOStrategy)) \<and>
   factory_create_resource new_ResourceFactory ''CacheDB''
     [(''id'', VStr ''1''), (''name'', VStr ''c''), (''ttl_seconds'', VInt 60),
      (''capacity_mb'', VInt 8), (''eviction_policy'', VStr ''LRU'')]
   = Inr (CacheDB (VStr ''1'') (VStr ''c'') CreatedState (VInt 60) (VInt 8) (VStrategy LRUStrategy))"
proof -
  have bound: "map_of (registry new_ResourceFactory) ''CacheDB'' = Some CacheDBClass"
    by (simp add: registry_new)
  show ?thesis
    using bound
      cachedb_eviction_strategy [of new_ResourceFactory
        "[(''id'', VStr ''1''), (''name'', VStr ''c''), (''ttl_seconds'', VInt 60),
          (''capacity_mb'', VInt 8), (''eviction_policy'', VStr ''lru'')]"
        "VStr ''1''" "VStr ''c''" "VInt 60" "VInt 8"]
      cachedb_eviction_strategy [of new_ResourceFactory
        "[(''id'', VStr ''1''), (''name'', VStr ''c''), (''ttl_seconds'', VInt 60),
          (''capacity_mb'', VInt 8), (''eviction_policy'', VStr ''LRU'')]"
        "VStr ''1''" "VStr ''c''" "VInt 60" "VInt 8"]
    by (simp add: chosen_strategy_def)
qed

text \<open>
  Claim C2 as stated fails where the field is omitted: the source reads it with
  \<open>config.get('eviction_policy', 'LRU')\<close>, so a new factory builds a \<open>CacheDB\<close> whose
  strategy is LRU, not FIFO.
\<close>

theorem cachedb_omitted_policy_counterexample:
  "map_of [(''id'', VStr ''1''), (''name'', VStr ''c''), (''ttl_seconds'', VInt 60),
           (''capacity_mb'', VInt 8)] ''eviction_policy'' \<noteq> Some (VStr ''LRU'') \<and>
   factory_create_resource new_ResourceFactory ''CacheDB''
     [(''id'', VStr ''1''), (''name'', VStr ''c''), (''ttl_seconds'', VInt 60),
      (''capacity_mb'', VInt 8)]
   = Inr (CacheDB (VStr ''1'') (VStr ''c'') CreatedState (VInt 60) (VInt 8) (VStrategy LRUStrategy))"
  by (simp add: factory_create_resource_def registry_new get_default_def and_then_def item_def)

text \<open>
  Rebinding the tag changes what the call builds: after \<open>register("CacheDB", AppService)\<close>
  the same call returns an \<open>AppService\<close> holding the strategy as its replica count, and
  after \<open>register("CacheDB", StorageAccount)\<close> it raises \<open>TypeError\<close>.
\<close>

lemma cachedb_tag_rebound:
  "factory_create_resource (after (register ''CacheDB'' AppServiceClass new_ResourceFactory)) ''CacheDB''
     [(''id'', VStr ''1''), (''name'', VStr ''c''), (''ttl_seconds'', VInt 60),
      (''capacity_mb'', VInt 8)]
   = Inr (AppService (VStr ''1'') (VStr ''c'') CreatedState (VInt 60) (VInt 8) (VStrategy LRUStrategy))"
  "factory_create_resource (after (register ''CacheDB'' StorageAccountClass new_ResourceFactory)) ''CacheDB''
     [(''id'', VStr ''1''), (''name'', VStr ''c''), (''ttl_seconds'', VInt 60),
      (''capacity_mb'', VInt 8)]
   = Inl (TypeError ''StorageAccount.__init__() takes 5 positional arguments but 6 were given'')"
  by (simp_all add: factory_create_resource_def registry_new register_def get_default_def
      and_then_def item_def)

section \<open>The authorization gate of the manager\<close>

lemma lifecycle_call_unauthenticated:
  "\<not> is_authenticated m \<Longrightarrow>
     outcome (lifecycle_call verb ev rid m) = Inr False \<and> after (lifecycle_call verb ev rid m) = m"
  by (simp add: lifecycle_call_def)

text \<open>
  Claim C3. With no user logged in, \<open>create_resource\<close> and \<open>get_resource_details\<close> return
  \<open>None\<close>, \<open>list_resources\<close> returns the empty dictionary, \<open>start_resource\<close>,
  \<open>stop_resource\<close> and \<open>delete_resource\<close> return \<open>False\<close>, and each leaves the whole manager
  (resource collection, id counter, every stored resource) as it was. On a freshly
  constructed manager \<open>create_resource\<close> returns \<open>None\<close> and the collection stays empty.
\<close>

theorem unauthenticated_calls_fail:
  "(\<not> is_authenticated m \<longrightarrow>
      outcome (create_resource resource_type cfg enable_logging m) = Inr None \<and>
      after (create_resource resource_type cfg enable_logging m) = m \<and>
      outcome (list_resources m) = Inr [] \<and> after (list_resources m) = m \<and>
      outcome (start_resource rid m) = Inr False \<and> after (start_resource rid m) = m \<and>
      outcome (stop_resource rid m) = Inr False \<and> after (stop_resource rid m) = m \<and>
      outcome (delete_resource rid m) = Inr False \<and> after (delete_resource rid m) = m \<and>
      outcome (get_resource_details rid m) = Inr None \<and> after (get_resource_details rid m) = m) \<and>
   outcome (create_resource resource_type cfg enable_logging (new_ResourceManager repo service)) = Inr None \<and>
   resources (after (create_resource resource_type cfg enable_logging (new_ResourceManager repo service))) = []"
  by (simp add: lifecycle_call_unauthenticated start_resource_def stop_resource_def
      delete_resource_def create_resource_def list_resources_def get_resource_details_def)
     (simp add: is_authenticated_def new_ResourceManager_def)

theorem unauthenticated_calls_fail_witness:
  "\<not> is_authenticated
      \<lparr>user_repository = UserRepository ''users.json'',
       login_service = FileLogin (UserRepository ''users.json''),
       factory = new_ResourceFactory,
       resources = [(''1'', StorageAccount (VStr ''1'') (VStr ''logs'') RunningState (VBool True) (VInt 5))],
       next_id = 2, current_user = None\<rparr> \<and>
   outcome (stop_resource ''1''
      \<lparr>user_repository = UserRepository ''users.json'',
       login_service = FileLogin (UserRepository ''users.json''),
       factory = new_ResourceFactory,
       resources = [(''1'', StorageAccount (VStr ''1'') (VStr ''logs'') RunningState (VBool True) (VInt 5))],
       next_id = 2, current_user = None\<rparr>) = Inr False \<and>
   resources (after (stop_resource ''1''
      \<lparr>user_repository = UserRepository ''users.json'',
       login_service = FileLogin (UserRepository ''users.json''),
       factory = new_ResourceFactory,
       resources = [(''1'', StorageAccount (VStr ''1'') (VStr ''logs'') RunningState (VBool True) (VInt 5))],
       next_id = 2, current_user = None\<rparr>))
     = [(''1'', StorageAccount (VStr ''1'') (VStr ''logs'') RunningState (VBool True) (VInt 5))]"
proof -
  have h: "\<not> is_authenticated
      \<lparr>user_repository = UserRepository ''users.json'',
       login_service = FileLogin (UserRepository ''users.json''),
       factory = new_ResourceFactory,
       resources = [(''1'', StorageAccount (VStr ''1'') (VStr ''logs'') RunningState (VBool True) (VInt 5))],
       next_id = 2, current_user = None\<rparr>"
    by (simp add: is_authenticated_def)
  show ?thesis
    using h unauthenticated_calls_fail [of
      "\<lparr>user_repository = UserRepository ''users.json'',
       login_service = FileLogin (UserRepository ''users.json''),
       factory = new_ResourceFactory,
       resources = [(''1'', StorageAccount (VStr ''1'') (VStr ''logs'') RunningState (VBool True) (VInt 5))],
       next_id = 2, current_user = None\<rparr>" "''AppService''" "[]" False "''1''"
       "UserRepository ''users.json''" "FileLogin (UserRepository ''users.json'')"]
    by simp
qed

lemma login_resources: "resources (after (login uname pw fs m)) = resources m"
  by (simp add: login_def Let_def split: prod.splits option.splits)

lemma logout_resources: "resources (after (logout m)) = resources m"
  by (simp add: logout_def split: option.splits)

text \<open>The methods that test the session leave the collection alone while nobody is logged in.\<close>

lemma gated_calls_keep_resources:
  "\<not> is_authenticated (mgr w) \<Longrightarrow> \<forall>rid ev. c \<noteq> OnResource rid ev \<Longrightarrow>
     resources (mgr (after (exec c w))) = resources (mgr w)"
  by (cases c)
     (simp_all add: on_mgr_def login_resources logout_resources Let_def
        lifecycle_call_unauthenticated start_resource_def stop_resource_def
        delete_resource_def create_resource_def list_resources_def get_resource_details_def)

text \<open>
  Claim C5 at a failing input. A user registers, logs in, creates an \<open>AppService\<close>, starts
  it and logs out. Nobody is logged in now: \<open>stop_resource\<close> returns \<open>False\<close> and the
  resource stays RUNNING. But \<open>get_resource\<close>, which does not test the session, still
  hands out the stored object, and \<open>stop\<close> on it succeeds: the stored resource is STOPPED.
\<close>

theorem logged_out_handle_changes_state:
  "(let w = exec_all
       [RegisterUser ''bob'' ''pw'' ''user'',
        Login ''bob'' ''pw'',
        CreateResource ''AppService''
          [(''name'', VStr ''web''), (''runtime'', VStr ''Python''), (''region'', VStr ''us-east-1''),
           (''replica_count'', VInt 3)] False,
        StartResource ''1'',
        Logout]
       \<lparr>files = (\<lambda>p. []),
        mgr = new_ResourceManager (UserRepository ''users.json'')
                (FileLogin (UserRepository ''users.json''))\<rparr>
    in
      \<not> is_authenticated (mgr w) \<and>
      outcome (exec (StopResource ''1'') w) = Inr (RBool False) \<and>
      map_option get_state (get_resource ''1'' (mgr (after (exec (StopResource ''1'') w))))
        = Some ''RUNNING'' \<and>
      outcome (exec (GetResource ''1'') w) = Inr (RHandle ''1'') \<and>
      outcome (exec (OnResource ''1'' Stop) w) = Inr RNone \<and>
      map_option get_state (get_resource ''1'' (mgr (after (exec (OnResource ''1'' Stop) w))))
        = Some ''STOPPED'')"
  by (simp add: on_mgr_def opt_ret_def register_user_def add_user_def read_data_def write_data_def
      to_dict_def login_def find_by_username_def from_dict_def new_ResourceManager_def
      create_resource_def is_authenticated_def factory_create_resource_def registry_new
      and_then_def item_def str_small start_resource_def stop_resource_def lifecycle_call_def
      get_resource_def logout_def on_resource_def Let_def)

section \<open>The user repository\<close>

lemma find_fresh: "\<not> list_ex P xs \<Longrightarrow> P x \<Longrightarrow> find P (xs @ [x]) = Some x"
  by (induction xs) simp_all

lemma find_present: "list_ex P xs \<Longrightarrow> find P (xs @ ys) = find P xs"
  by (induction xs) auto

lemma from_dict_to_dict: "from_dict (to_dict user) = user"
  by (simp add: from_dict_def to_dict_def)

lemma add_user_present:
  "list_ex (\<lambda>u. username_key u = username user) (read_data repo fs) \<Longrightarrow>
     add_user repo user fs = (False, fs)"
  by (simp add: add_user_def)

lemma add_user_fresh:
  "\<not> list_ex (\<lambda>u. username_key u = username user) (read_data repo fs) \<Longrightarrow>
     add_user repo user fs = (True, fs(filepath repo := read_data repo fs @ [to_dict user]))"
  by (simp add: add_user_def write_data_def)

lemma register_user_present:
  assumes "list_ex (\<lambda>u. username_key u = uname) (read_data (user_repository m) fs)"
  shows "outcome (register_user uname pw rl m fs) = Inr False"
    and "after (register_user uname pw rl m fs) = fs"
  using assms by (simp_all add: register_user_def add_user_present)

lemma register_user_fresh:
  assumes "\<not> list_ex (\<lambda>u. username_key u = uname) (read_data (user_repository m) fs)"
  shows "outcome (register_user uname pw rl m fs) = Inr True"
    and "after (register_user uname pw rl m fs) =
           fs(filepath (user_repository m) :=
                read_data (user_repository m) fs @ [to_dict \<lparr>username = uname, password = pw, role = rl\<rparr>])"
  using assms by (simp_all add: register_user_def add_user_fresh)

lemma registered_found:
  assumes "\<not> list_ex (\<lambda>u. username_key u = uname) (read_data (user_repository m) fs)"
  shows "find_by_username (user_repository m) uname (after (register_user uname pw rl m fs))
           = Some \<lparr>username = uname, password = pw, role = rl\<rparr>"
    and "list_ex (\<lambda>u. username_key u = uname)
           (read_data (user_repository m) (after (register_user uname pw rl m fs)))"
proof -
  let ?user = "\<lparr>username = uname, password = pw, role = rl\<rparr>"
  let ?old = "read_data (user_repository m) fs"
  have key: "username_key (to_dict ?user) = uname"
    by (simp add: to_dict_def)
  have stored: "read_data (user_repository m) (after (register_user uname pw rl m fs))
                  = ?old @ [to_dict ?user]"
    by (simp add: register_user_fresh [OF assms] read_data_def)
  have "find (\<lambda>u. username_key u = uname) (?old @ [to_dict ?user]) = Some (to_dict ?user)"
    using assms key by (rule find_fresh)
  then show "find_by_username (user_repository m) uname (after (register_user uname pw rl m fs))
           = Some ?user"
    by (simp add: find_by_username_def stored from_dict_to_dict)
  show "list_ex (\<lambda>u. username_key u = uname)
           (read_data (user_repository m) (after (register_user uname pw rl m fs)))"
    by (simp add: stored key)
qed

text \<open>
  Claim C8. Registering a username that the store already holds returns \<open>False\<close> and
  leaves the file as it was, so the stored record keeps its password and role.
  Registering a username that the store does not hold returns \<open>True\<close> and appends exactly
  that record to the file; a second registration of the name, with any password and
  role, then returns \<open>False\<close> and the record found is still the first one.
\<close>

theorem register_user_duplicate_or_new:
  "(list_ex (\<lambda>u. username_key u = uname) (read_data (user_repository m) fs) \<longrightarrow>
      outcome (register_user uname pw rl m fs) = Inr False \<and>
      after (register_user uname pw rl m fs) = fs \<and>
      add_user (user_repository m) \<lparr>username = uname, password = pw, role = rl\<rparr> fs = (False, fs)) \<and>
   (\<not> list_ex (\<lambda>u. username_key u = uname) (read_data (user_repository m) fs) \<longrightarrow>
      outcome (register_user uname pw rl m fs) = Inr True \<and>
      after (register_user uname pw rl m fs) =
        fs(filepath (user_repository m) :=
             read_data (user_repository m) fs @ [to_dict \<lparr>username = uname, password = pw, role = rl\<rparr>]) \<and>
      find_by_username (user_repository m) uname (after (register_user uname pw rl m fs))
        = Some \<lparr>username = uname, password = pw, role = rl\<rparr> \<and>
      (\<forall>pw2 rl2.
         outcome (register_user uname pw2 rl2 m (after (register_user uname pw rl m fs))) = Inr False \<and>
         find_by_username (user_repository m) uname
           (after (register_user uname pw2 rl2 m (after (register_user uname pw rl m fs))))
           = Some \<lparr>username = uname, password = pw, role = rl\<rparr>))"
proof (cases "list_ex (\<lambda>u. username_key u = uname) (read_data (user_repository m) fs)")
  case True
  then show ?thesis
    by (simp add: register_user_present add_user_present)
next
  case False
  note found = registered_found [OF False, of pw rl]
  have again: "\<And>pw2 rl2.
     outcome (register_user uname pw2 rl2 m (after (register_user uname pw rl m fs))) = Inr False \<and>
     after (register_user uname pw2 rl2 m (after (register_user uname pw rl m fs)))
       = after (register_user uname pw rl m fs)"
    using register_user_present [OF found(2)] by simp
  show ?thesis
    using False found(1) again register_user_fresh [OF False, of pw rl] by simp
qed

theorem register_user_duplicate_or_new_witness:
  "outcome (register_user ''alice'' ''pw1'' ''admin''
      (new_ResourceManager (UserRepository ''users.json'') (FileLogin (UserRepository ''users.json'')))
      (\<lambda>p. [])) = Inr True \<and>
   outcome (register_user ''alice'' ''pw2'' ''user''
      (new_ResourceManager (UserRepository ''users.json'') (FileLogin (UserRepository ''users.json'')))
      (after (register_user ''alice'' ''pw1'' ''admin''
         (new_ResourceManager (UserRepository ''users.json'') (FileLogin (UserRepository ''users.json'')))
         (\<lambda>p. [])))) = Inr False \<and>
   find_by_username (UserRepository ''users.json'') ''alice''
     (after (register_user ''alice'' ''pw2'' ''user''
        (new_ResourceManager (UserRepository ''users.json'') (FileLogin (UserRepository ''users.json'')))
        (after (register_user ''alice'' ''pw1'' ''admin''
           (new_ResourceManager (UserRepository ''users.json'') (FileLogin (UserRepository ''users.json'')))
           (\<lambda>p. [])))))
     = Some \<lparr>username = ''alice'', password = ''pw1'', role = ''admin''\<rparr>"
proof -
  have repo: "user_repository
      (new_ResourceManager (UserRepository ''users.json'') (FileLogin (UserRepository ''users.json'')))
      = UserRepository ''users.json''"
    by (simp add: new_ResourceManager_def)
  have fresh: "\<not> list_ex (\<lambda>u. username_key u = ''alice'')
      (read_data (user_repository
         (new_ResourceManager (UserRepository ''users.json'') (FileLogin (UserRepository ''users.json''))))
         (\<lambda>p. []))"
    by (simp add: read_data_def)
  note both = register_user_duplicate_or_new [of "''alice''"
      "new_ResourceManager (UserRepository ''users.json'') (FileLogin (UserRepository ''users.json''))"
      "\<lambda>p. []" "''pw1''" "''admin''"]
  from fresh both [unfolded repo] show ?thesis
    unfolding repo by blast
qed

section \<open>Login\<close>

text \<open>
  The two ways \<open>login\<close> returns \<open>False\<close>: when the login service rejects the credentials
  the manager is untouched; when it accepts them and the repository has no such user the
  manager is left with no current user.
\<close>

lemma login_rejected_keeps_session:
  "\<not> fst (authenticate (login_service m) uname pw fs) \<Longrightarrow>
     outcome (login uname pw fs m) = Inr False \<and> after (login uname pw fs m) = m"
  by (cases "authenticate (login_service m) uname pw fs") (simp add: login_def)

lemma login_failure_session:
  "outcome (login uname pw fs m) = Inr False \<Longrightarrow>
     current_user (after (login uname pw fs m)) = current_user m \<or>
     current_user (after (login uname pw fs m)) = None"
  by (cases "authenticate (login_service m) uname pw fs")
     (auto simp: login_def Let_def split: option.splits if_splits)

text \<open>
  Claim C6 at a failing input. The manager uses the service login, which accepts any
  non-empty credentials; the store holds only \<open>alice\<close>. After \<open>alice\<close> has logged in, a
  \<open>login\<close> as \<open>ghost\<close> returns \<open>False\<close>, and the session, which was \<open>alice\<close>, is gone:
  \<open>current_user\<close> was overwritten with \<open>None\<close> before the test.
\<close>

theorem login_unknown_user_ends_session:
  "outcome (login ''alice'' ''pw1''
      ((\<lambda>p. [])(''users.json'' := [\<lparr>username_key = ''alice'', password_key = ''pw1'', role_key = Some ''admin''\<rparr>]))
      (new_ResourceManager (UserRepository ''users.json'') (ServiceLogin ''https://auth.example.com'' ''key'')))
     = Inr True \<and>
   current_user (after (login ''alice'' ''pw1''
      ((\<lambda>p. [])(''users.json'' := [\<lparr>username_key = ''alice'', password_key = ''pw1'', role_key = Some ''admin''\<rparr>]))
      (new_ResourceManager (UserRepository ''users.json'') (ServiceLogin ''https://auth.example.com'' ''key''))))
     = Some \<lparr>username = ''alice'', password = ''pw1'', role = ''admin''\<rparr> \<and>
   outcome (login ''ghost'' ''pw''
      ((\<lambda>p. [])(''users.json'' := [\<lparr>username_key = ''alice'', password_key = ''pw1'', role_key = Some ''admin''\<rparr>]))
      (after (login ''alice'' ''pw1''
         ((\<lambda>p. [])(''users.json'' := [\<lparr>username_key = ''alice'', password_key = ''pw1'', role_key = Some ''admin''\<rparr>]))
         (new_ResourceManager (UserRepository ''users.json'') (ServiceLogin ''https://auth.example.com'' ''key'')))))
     = Inr False \<and>
   current_user (after (login ''ghost'' ''pw''
      ((\<lambda>p. [])(''users.json'' := [\<lparr>username_key = ''alice'', password_key = ''pw1'', role_key = Some ''admin''\<rparr>]))
      (after (login ''alice'' ''pw1''
         ((\<lambda>p. [])(''users.json'' := [\<lparr>username_key = ''alice'', password_key = ''pw1'', role_key = Some ''admin''\<rparr>]))
         (new_ResourceManager (UserRepository ''users.json'') (ServiceLogin ''https://auth.example.com'' ''key''))))))
     = None"
  by (simp add: login_def new_ResourceManager_def find_by_username_def read_data_def from_dict_def)

section \<open>Deleted resources stay in the collection\<close>

lemma get_details_state: "\<exists>p s. get_details r = p @ ''State: '' @ get_state r @ s"
proof (induction r)
  case (AppService i n st rt rg rc)
  have "get_details (AppService i n st rt rg rc) =
     (''AppService['' @ py_str i @ '']: '' @ py_str n @ newline @ ''  '') @ ''State: '' @
     get_state (AppService i n st rt rg rc) @
     (newline @ ''  Runtime: '' @ py_str rt @ newline @ ''  Region: '' @ py_str rg @ newline @
      ''  Replicas: '' @ py_str rc)"
    by simp
  then show ?case by blast
next
  case (StorageAccount i n st e m)
  have "get_details (StorageAccount i n st e m) =
     (''StorageAccount['' @ py_str i @ '']: '' @ py_str n @ newline @ ''  '') @ ''State: '' @
     get_state (StorageAccount i n st e m) @
     (newline @ ''  Encryption: '' @ (if truthy e then ''Enabled'' else ''Disabled'') @ newline @
      ''  Max Size: '' @ py_str m @ ''GB'')"
    by simp
  then show ?case by blast
next
  case (CacheDB i n st t c p)
  have "get_details (CacheDB i n st t c p) =
     (''CacheDB['' @ py_str i @ '']: '' @ py_str n @ newline @ ''  '') @ ''State: '' @
     get_state (CacheDB i n st t c p) @
     (newline @ ''  TTL: '' @ py_str t @ ''s'' @ newline @ ''  Capacity: '' @ py_str c @ ''MB'' @
      newline @ ''  Eviction: '' @ type_name p)"
    by simp
  then show ?case by blast
next
  case (LoggingDecorator i n st w)
  then show ?case by simp
qed

lemma details_report_state: "get_state r = s \<Longrightarrow> sublist (''State: '' @ s) (get_details r)"
proof -
  assume "get_state r = s"
  moreover obtain p t where "get_details r = p @ ''State: '' @ get_state r @ t"
    using get_details_state by blast
  ultimately have "get_details r = p @ (''State: '' @ s) @ t" by simp
  then show ?thesis by (metis sublist_appendI)
qed

lemma delete_success: "outcome (delete r) = Inr u \<Longrightarrow> get_state (after (delete r)) = ''DELETED''"
  by (cases "lifecycle r") (simp_all add: delete_outcome delete_after get_state_lifecycle)

text \<open>
  Claim C10. A \<open>delete_resource\<close> call that returns \<open>True\<close> removes nothing: the
  collection has the same ids in the same order, the resource is still stored under its
  id, now in state DELETED, \<open>list_resources\<close> returns the collection with it, and
  \<open>get_resource_details\<close> returns its details, which contain \<open>State: DELETED\<close>.
\<close>

theorem delete_resource_keeps_entry:
  assumes auth: "is_authenticated m"
      and stored: "get_resource rid m = Some r"
      and ok: "outcome (delete_resource rid m) = Inr True"
  shows "get_resource rid (after (delete_resource rid m)) = Some (after (delete r)) \<and>
         get_state (after (delete r)) = ''DELETED'' \<and>
         map fst (resources (after (delete_resource rid m))) = map fst (resources m) \<and>
         outcome (list_resources (after (delete_resource rid m)))
           = Inr (resources (after (delete_resource rid m))) \<and>
         (rid, after (delete r)) \<in> set (resources (after (delete_resource rid m))) \<and>
         outcome (get_resource_details rid (after (delete_resource rid m)))
           = Inr (Some (get_details (after (delete r)))) \<and>
         sublist ''State: DELETED'' (get_details (after (delete r)))"
proof -
  let ?m' = "after (delete_resource rid m)"
  have m': "?m' = m\<lparr>resources := AList.update rid (after (delete r)) (resources m)\<rparr>"
    using auth stored by (simp add: delete_resource_def lifecycle_call_def Let_def)
  from ok auth stored have "outcome (delete r) = Inr ()"
    by (simp add: delete_resource_def lifecycle_call_def Let_def split: sum.splits)
  then have deleted: "get_state (after (delete r)) = ''DELETED''"
    by (rule delete_success)
  have auth': "is_authenticated ?m'"
    using auth by (simp add: m' is_authenticated_def)
  have got: "get_resource rid ?m' = Some (after (delete r))"
    by (simp add: m' get_resource_def update_conv')
  from stored have "rid \<in> set (map fst (resources m))"
    by (auto simp: get_resource_def dest: map_of_SomeD intro: rev_image_eqI)
  then have keys: "map fst (resources ?m') = map fst (resources m)"
    by (simp add: m' update_keys)
  from got have mem: "(rid, after (delete r)) \<in> set (resources ?m')"
    by (simp add: get_resource_def map_of_SomeD)
  have list: "outcome (list_resources ?m') = Inr (resources ?m')"
    using auth' by (simp add: list_resources_def)
  have details: "outcome (get_resource_details rid ?m') = Inr (Some (get_details (after (delete r))))"
    using auth' got by (simp add: get_resource_details_def)
  have report: "sublist ''State: DELETED'' (get_details (after (delete r)))"
    using details_report_state [OF deleted] by simp
  from got deleted keys list mem details report show ?thesis by blast
qed

theorem delete_resource_keeps_entry_witness:
  "outcome (delete_resource ''1''
      \<lparr>user_repository = UserRepository ''users.json'',
       login_service = FileLogin (UserRepository ''users.json''),
       factory = new_ResourceFactory,
       resources = [(''1'', CacheDB (VStr ''1'') (VStr ''sessions'') StoppedState (VInt 3600) (VInt 512) (VStrategy LRUStrategy))],
       next_id = 2,
       current_user = Some \<lparr>username = ''alice'', password = ''pw1'', role = ''admin''\<rparr>\<rparr>) = Inr True \<and>
   resources (after (delete_resource ''1''
      \<lparr>user_repository = UserRepository ''users.json'',
       login_service = FileLogin (UserRepository ''users.json''),
       factory = new_ResourceFactory,
       resources = [(''1'', CacheDB (VStr ''1'') (VStr ''sessions'') StoppedState (VInt 3600) (VInt 512) (VStrategy LRUStrategy))],
       next_id = 2,
       current_user = Some \<lparr>username = ''alice'', password = ''pw1'', role = ''admin''\<rparr>\<rparr>))
     = [(''1'', CacheDB (VStr ''1'') (VStr ''sessions'') DeletedState (VInt 3600) (VInt 512) (VStrategy LRUStrategy))] \<and>
   sublist ''State: DELETED''
     (get_details (CacheDB (VStr ''1'') (VStr ''sessions'') DeletedState (VInt 3600) (VInt 512) (VStrategy LRUStrategy)))"
proof -
  let ?r = "CacheDB (VStr ''1'') (VStr ''sessions'') StoppedState (VInt 3600) (VInt 512) (VStrategy LRUStrategy)"
  let ?m = "\<lparr>user_repository = UserRepository ''users.json'',
       login_service = FileLogin (UserRepository ''users.json''),
       factory = new_ResourceFactory,
       resources = [(''1'', ?r)],
       next_id = 2,
       current_user = Some \<lparr>username = ''alice'', password = ''pw1'', role = ''admin''\<rparr>\<rparr>"
  have auth: "is_authenticated ?m"
    by (simp add: is_authenticated_def)
  have stored: "get_resource ''1'' ?m = Some ?r"
    by (simp add: get_resource_def)
  have ok: "outcome (delete_resource ''1'' ?m) = Inr True"
    by (simp add: delete_resource_def lifecycle_call_def is_authenticated_def get_resource_def)
  have after: "after (delete ?r) = CacheDB (VStr ''1'') (VStr ''sessions'') DeletedState (VInt 3600) (VInt 512) (VStrategy LRUStrategy)"
    by simp
  have res: "resources (after (delete_resource ''1'' ?m))
     = [(''1'', CacheDB (VStr ''1'') (VStr ''sessions'') DeletedState (VInt 3600) (VInt 512) (VStrategy LRUStrategy))]"
    by (simp add: delete_resource_def lifecycle_call_def is_authenticated_def get_resource_def)
  from ok res delete_resource_keeps_entry [OF auth stored ok] show ?thesis
    unfolding after by blast
qed

section \<open>Resource ids\<close>

lemma set_state_twice [simp]: "set_state s (set_state t r) = set_state s r"
  by (induction r) simp_all

lemma set_state_after_state_op:
  "set_state s (after (state_start st r)) = set_state s r"
  "set_state s (after (state_stop st r)) = set_state s r"
  "set_state s (after (state_delete st r)) = set_state s r"
  by (cases st; simp)+

lemma set_state_after_invoke: "set_state s (after (invoke ev r)) = set_state s r"
  by (induction r) (cases ev; simp add: Let_def set_state_after_state_op)+

lemma login_fields:
  "resources (after (login uname pw fs m)) = resources m"
  "next_id (after (login uname pw fs m)) = next_id m"
  by (simp_all add: login_def Let_def split: prod.splits option.splits)

lemma logout_fields:
  "resources (after (logout m)) = resources m"
  "next_id (after (logout m)) = next_id m"
  by (simp_all add: logout_def split: option.splits)

lemma lifecycle_call_fields:
  "next_id (after (lifecycle_call verb ev rid m)) = next_id m"
  "map fst (resources (after (lifecycle_call verb ev rid m))) = map fst (resources m)"
proof -
  show "next_id (after (lifecycle_call verb ev rid m)) = next_id m"
    by (simp add: lifecycle_call_def Let_def split: option.splits)
  show "map fst (resources (after (lifecycle_call verb ev rid m))) = map fst (resources m)"
  proof (cases "get_resource rid m")
    case None
    then show ?thesis by (simp add: lifecycle_call_def)
  next
    case (Some r)
    then have "rid \<in> set (map fst (resources m))"
      by (auto simp: get_resource_def dest: map_of_SomeD intro: rev_image_eqI)
    with Some show ?thesis by (simp add: lifecycle_call_def Let_def update_keys)
  qed
qed

lemma on_resource_fields:
  "next_id (after (on_resource ev rid m)) = next_id m"
  "map fst (resources (after (on_resource ev rid m))) = map fst (resources m)"
proof -
  show "next_id (after (on_resource ev rid m)) = next_id m"
    by (simp add: on_resource_def Let_def split: option.splits)
  show "map fst (resources (after (on_resource ev rid m))) = map fst (resources m)"
  proof (cases "get_resource rid m")
    case None
    then show ?thesis by (simp add: on_resource_def)
  next
    case (Some r)
    then have "rid \<in> set (map fst (resources m))"
      by (auto simp: get_resource_def dest: map_of_SomeD intro: rev_image_eqI)
    with Some show ?thesis by (simp add: on_resource_def Let_def update_keys)
  qed
qed

lemma on_resource_lookup:
  "get_resource k m = Some r \<Longrightarrow>
     \<exists>r'. get_resource k (after (on_resource ev rid m)) = Some r' \<and>
          set_state CreatedState r' = set_state CreatedState r"
  by (cases "get_resource rid m")
     (auto simp: on_resource_def Let_def get_resource_def update_conv' set_state_after_invoke
        simp del: invoke.simps)

lemma lifecycle_call_lookup:
  "get_resource k m = Some r \<Longrightarrow>
     \<exists>r'. get_resource k (after (lifecycle_call verb ev rid m)) = Some r' \<and>
          set_state CreatedState r' = set_state CreatedState r"
  by (cases "get_resource rid m")
     (auto simp: lifecycle_call_def Let_def get_resource_def update_conv' set_state_after_invoke
        simp del: invoke.simps)

text \<open>What a successful and an unsuccessful \<open>create_resource\<close> leave behind.\<close>

lemma create_resource_cases:
  "(outcome (create_resource t cfg lg m) = Inr (Some (str (next_id m))) \<and>
    (\<exists>created.
       factory_create_resource (factory m) t (AList.update ''id'' (VStr (str (next_id m))) cfg) = Inr created \<and>
       after (create_resource t cfg lg m) =
         m\<lparr>resources := AList.update (str (next_id m))
                         (if lg then new_LoggingDecorator created else created) (resources m),
           next_id := next_id m + 1\<rparr>)) \<or>
   ((\<forall>rid. outcome (create_resource t cfg lg m) \<noteq> Inr (Some rid)) \<and>
    after (create_resource t cfg lg m) = m)"
  by (auto simp: create_resource_def is_authenticated_def Let_def split: sum.splits option.splits)

lemma read_only_fields:
  "after (list_resources m) = m"
  "after (get_resource_details rid m) = m"
  by (simp_all add: list_resources_def get_resource_details_def split: option.splits)

lemma keys_update: "fst ` set (AList.update k v al) = insert k (fst ` set al)"
  by (simp add: dom_update)

lemma exec_counter:
  "(created_id c (outcome (exec c w)) = [] \<and>
    next_id (mgr (after (exec c w))) = next_id (mgr w) \<and>
    map fst (resources (mgr (after (exec c w)))) = map fst (resources (mgr w))) \<or>
   (created_id c (outcome (exec c w)) = [str (next_id (mgr w))] \<and>
    next_id (mgr (after (exec c w))) = next_id (mgr w) + 1 \<and>
    set (map fst (resources (mgr (after (exec c w))))) =
      insert (str (next_id (mgr w))) (set (map fst (resources (mgr w)))))"
proof (cases c)
  case (CreateResource t cfg lg)
  from create_resource_cases [of t cfg lg "mgr w"] show ?thesis
  proof
    assume "outcome (create_resource t cfg lg (mgr w)) = Inr (Some (str (next_id (mgr w)))) \<and>
      (\<exists>created.
         factory_create_resource (factory (mgr w)) t
           (AList.update ''id'' (VStr (str (next_id (mgr w)))) cfg) = Inr created \<and>
         after (create_resource t cfg lg (mgr w)) =
           (mgr w)\<lparr>resources := AList.update (str (next_id (mgr w)))
                           (if lg then new_LoggingDecorator created else created) (resources (mgr w)),
             next_id := next_id (mgr w) + 1\<rparr>)"
    then obtain created where
      ok: "outcome (create_resource t cfg lg (mgr w)) = Inr (Some (str (next_id (mgr w))))" and
      m': "after (create_resource t cfg lg (mgr w)) =
           (mgr w)\<lparr>resources := AList.update (str (next_id (mgr w)))
                           (if lg then new_LoggingDecorator created else created) (resources (mgr w)),
             next_id := next_id (mgr w) + 1\<rparr>"
      by blast
    have "created_id c (outcome (exec c w)) = [str (next_id (mgr w))]"
      using CreateResource ok by (simp add: on_mgr_def opt_ret_def)
    moreover have "next_id (mgr (after (exec c w))) = next_id (mgr w) + 1"
      using CreateResource m' by (simp add: on_mgr_def)
    moreover have "set (map fst (resources (mgr (after (exec c w))))) =
        insert (str (next_id (mgr w))) (set (map fst (resources (mgr w))))"
      using CreateResource m' by (simp add: on_mgr_def keys_update)
    ultimately show ?thesis by blast
  next
    assume fail: "(\<forall>rid. outcome (create_resource t cfg lg (mgr w)) \<noteq> Inr (Some rid)) \<and>
      after (create_resource t cfg lg (mgr w)) = mgr w"
    then have "created_id c (outcome (exec c w)) = []"
      using CreateResource
      by (cases "outcome (create_resource t cfg lg (mgr w))")
         (auto simp: on_mgr_def opt_ret_def split: option.splits)
    with fail CreateResource show ?thesis by (simp add: on_mgr_def)
  qed
qed (simp_all add: on_mgr_def login_fields logout_fields lifecycle_call_fields read_only_fields
       on_resource_fields start_resource_def stop_resource_def delete_resource_def Let_def)

lemma exec_issued_below:
  assumes "issued_below (mgr w)"
  shows "issued_below (mgr (after (exec c w)))"
  using exec_counter [of c w]
proof
  assume "created_id c (outcome (exec c w)) = [] \<and>
    next_id (mgr (after (exec c w))) = next_id (mgr w) \<and>
    map fst (resources (mgr (after (exec c w)))) = map fst (resources (mgr w))"
  with assms show ?thesis by (simp add: issued_below_def del: exec.simps)
next
  assume "created_id c (outcome (exec c w)) = [str (next_id (mgr w))] \<and>
    next_id (mgr (after (exec c w))) = next_id (mgr w) + 1 \<and>
    set (map fst (resources (mgr (after (exec c w))))) =
      insert (str (next_id (mgr w))) (set (map fst (resources (mgr w))))"
  then have n: "next_id (mgr (after (exec c w))) = next_id (mgr w) + 1"
    and k: "set (map fst (resources (mgr (after (exec c w))))) =
      insert (str (next_id (mgr w))) (set (map fst (resources (mgr w))))"
    by blast+
  show ?thesis
    unfolding issued_below_def n k
  proof
    fix key
    assume "key \<in> insert (str (next_id (mgr w))) (set (map fst (resources (mgr w))))"
    then consider "key = str (next_id (mgr w))" | "key \<in> set (map fst (resources (mgr w)))"
      by blast
    then show "\<exists>j<next_id (mgr w) + 1. key = str j"
    proof cases
      case 1
      then show ?thesis by (intro exI [of _ "next_id (mgr w)"]) simp
    next
      case 2
      with assms obtain j where "j < next_id (mgr w)" "key = str j"
        unfolding issued_below_def by blast
      then show ?thesis by (intro exI [of _ j]) simp
    qed
  qed
qed

lemma reachable_issued_below: "reachable w \<Longrightarrow> issued_below (mgr w)"
proof (induction rule: reachable.induct)
  case (constructed fs repo service)
  show ?case by (simp add: issued_below_def new_ResourceManager_def)
next
  case (called w c)
  from called.IH show ?case by (rule exec_issued_below)
next
  case (files_changed w fs)
  then show ?case by (simp add: issued_below_def)
next
  case (service_replaced w service)
  then show ?case by (simp add: issued_below_def)
qed

lemma issued_below_fresh: "issued_below m \<Longrightarrow> get_resource (str (next_id m + int k)) m = None"
proof (rule ccontr)
  assume inv: "issued_below m" and "get_resource (str (next_id m + int k)) m \<noteq> None"
  then obtain r where "map_of (resources m) (str (next_id m + int k)) = Some r"
    by (auto simp: get_resource_def)
  then have "str (next_id m + int k) \<in> set (map fst (resources m))"
    by (auto dest: map_of_SomeD intro: rev_image_eqI)
  with inv obtain j where "j < next_id m" "str (next_id m + int k) = str j"
    unfolding issued_below_def by blast
  then show False by (auto dest: str_inj)
qed

lemma created_ids_sequential:
  "created_ids cs w = map (\<lambda>k. str (next_id (mgr w) + int k)) [0..<length (created_ids cs w)]"
proof (induction cs arbitrary: w)
  case Nil
  show ?case by simp
next
  case (Cons c cs)
  let ?w' = "after (exec c w)"
  let ?rest = "created_ids cs ?w'"
  have ih: "?rest = map (\<lambda>k. str (next_id (mgr ?w') + int k)) [0..<length ?rest]"
    by (rule Cons.IH)
  from exec_counter [of c w] show ?case
  proof
    assume "created_id c (outcome (exec c w)) = [] \<and>
      next_id (mgr ?w') = next_id (mgr w) \<and>
      map fst (resources (mgr ?w')) = map fst (resources (mgr w))"
    then have "created_id c (outcome (exec c w)) = []" "next_id (mgr ?w') = next_id (mgr w)"
      by blast+
    with ih show ?thesis by (simp del: exec.simps)
  next
    assume "created_id c (outcome (exec c w)) = [str (next_id (mgr w))] \<and>
      next_id (mgr ?w') = next_id (mgr w) + 1 \<and>
      set (map fst (resources (mgr ?w'))) =
        insert (str (next_id (mgr w))) (set (map fst (resources (mgr w))))"
    then have hd: "created_id c (outcome (exec c w)) = [str (next_id (mgr w))]"
      and n: "next_id (mgr ?w') = next_id (mgr w) + 1"
      by blast+
    have "created_ids (c # cs) w = str (next_id (mgr w)) # ?rest"
      by (simp add: hd del: exec.simps)
    also have "?rest = map (\<lambda>k. str (next_id (mgr w) + int (Suc k))) [0..<length ?rest]"
    proof -
      have "(\<lambda>k. str (next_id (mgr ?w') + int k)) = (\<lambda>k. str (next_id (mgr w) + int (Suc k)))"
        unfolding n by (rule ext) (simp add: add.assoc)
      with ih show ?thesis by (simp only:)
    qed
    also have "str (next_id (mgr w)) # map (\<lambda>k. str (next_id (mgr w) + int (Suc k))) [0..<length ?rest]
      = map (\<lambda>k. str (next_id (mgr w) + int k)) [0..<Suc (length ?rest)]"
      by (simp add: upt_conv_Cons map_Suc_upt [symmetric] del: upt_Suc)
    finally show ?thesis
      by (simp del: exec.simps upt_Suc add: hd)
  qed
qed

lemma exec_keeps_resource:
  assumes inv: "issued_below (mgr w)" and stored: "get_resource rid (mgr w) = Some r"
  shows "\<exists>r'. get_resource rid (mgr (after (exec c w))) = Some r' \<and>
              set_state CreatedState r' = set_state CreatedState r"
proof (cases c)
  case (CreateResource t cfg lg)
  from create_resource_cases [of t cfg lg "mgr w"] show ?thesis
  proof
    assume "outcome (create_resource t cfg lg (mgr w)) = Inr (Some (str (next_id (mgr w)))) \<and>
      (\<exists>created.
         factory_create_resource (factory (mgr w)) t
           (AList.update ''id'' (VStr (str (next_id (mgr w)))) cfg) = Inr created \<and>
         after (create_resource t cfg lg (mgr w)) =
           (mgr w)\<lparr>resources := AList.update (str (next_id (mgr w)))
                           (if lg then new_LoggingDecorator created else created) (resources (mgr w)),
             next_id := next_id (mgr w) + 1\<rparr>)"
    then obtain created where
      m': "after (create_resource t cfg lg (mgr w)) =
           (mgr w)\<lparr>resources := AList.update (str (next_id (mgr w)))
                           (if lg then new_LoggingDecorator created else created) (resources (mgr w)),
             next_id := next_id (mgr w) + 1\<rparr>"
      by blast
    from issued_below_fresh [OF inv, of 0] stored have "rid \<noteq> str (next_id (mgr w))"
      by auto
    with stored have "get_resource rid (mgr (after (exec c w))) = Some r"
      using CreateResource m' by (simp add: on_mgr_def get_resource_def update_conv')
    then show ?thesis by simp
  next
    assume "(\<forall>rid. outcome (create_resource t cfg lg (mgr w)) \<noteq> Inr (Some rid)) \<and>
      after (create_resource t cfg lg (mgr w)) = mgr w"
    with stored CreateResource show ?thesis by (simp add: on_mgr_def)
  qed
next
  case (StartResource k)
  with lifecycle_call_lookup [OF stored, of "''start''" Start k] show ?thesis
    by (simp add: on_mgr_def start_resource_def)
next
  case (StopResource k)
  with lifecycle_call_lookup [OF stored, of "''stop''" Stop k] show ?thesis
    by (simp add: on_mgr_def stop_resource_def)
next
  case (DeleteResource k)
  with lifecycle_call_lookup [OF stored, of "''delete''" Delete k] show ?thesis
    by (simp add: on_mgr_def delete_resource_def)
next
  case (OnResource k ev)
  with on_resource_lookup [OF stored, of ev k] show ?thesis
    by (simp add: on_mgr_def)
qed (simp_all add: stored on_mgr_def get_resource_def login_fields logout_fields
       read_only_fields Let_def stored [unfolded get_resource_def])

lemma exec_all_keeps_resource:
  "issued_below (mgr w) \<Longrightarrow> get_resource rid (mgr w) = Some r \<Longrightarrow>
     \<exists>r'. get_resource rid (mgr (exec_all cs w)) = Some r' \<and>
          set_state CreatedState r' = set_state CreatedState r"
proof (induction cs arbitrary: w r)
  case Nil
  then show ?case by simp
next
  case (Cons c cs)
  from exec_keeps_resource [OF Cons.prems, of c] obtain r1 where
    r1: "get_resource rid (mgr (after (exec c w))) = Some r1"
        "set_state CreatedState r1 = set_state CreatedState r"
    by blast
  from Cons.IH [OF exec_issued_below [OF Cons.prems(1), of c] r1(1)] obtain r' where
    "get_resource rid (mgr (exec_all cs (after (exec c w)))) = Some r'"
    "set_state CreatedState r' = set_state CreatedState r1"
    by blast
  with r1(2) show ?case by (simp del: exec.simps)
qed

lemma created_ids_distinct: "distinct (created_ids cs w)"
proof -
  have "inj_on (\<lambda>k. str (next_id (mgr w) + int k)) (set [0..<length (created_ids cs w)])"
    by (rule inj_onI) (auto dest: str_inj)
  then have "distinct (map (\<lambda>k. str (next_id (mgr w) + int k)) [0..<length (created_ids cs w)])"
    by (simp add: distinct_map)
  with created_ids_sequential [of cs w] show ?thesis by simp
qed

lemma created_ids_fresh:
  assumes "issued_below (mgr w)" and "rid \<in> set (created_ids cs w)"
  shows "get_resource rid (mgr w) = None"
proof -
  from assms(2) created_ids_sequential [of cs w]
  have "rid \<in> set (map (\<lambda>k. str (next_id (mgr w) + int k)) [0..<length (created_ids cs w)])"
    by simp
  then obtain k where "rid = str (next_id (mgr w) + int k)" by auto
  with issued_below_fresh [OF assms(1), of k] show ?thesis by simp
qed

lemma create_resource_stores:
  assumes inv: "issued_below m"
      and ok: "outcome (create_resource t cfg lg m) = Inr (Some rid)"
  shows "rid = str (next_id m) \<and> get_resource rid m = None \<and>
         next_id (after (create_resource t cfg lg m)) = next_id m + 1 \<and>
         (\<exists>created.
            factory_create_resource (factory m) t (AList.update ''id'' (VStr rid) cfg) = Inr created \<and>
            get_resource rid (after (create_resource t cfg lg m))
              = Some (if lg then new_LoggingDecorator created else created))"
proof -
  from create_resource_cases [of t cfg lg m] ok obtain created where
    rid: "rid = str (next_id m)" and
    made: "factory_create_resource (factory m) t (AList.update ''id'' (VStr (str (next_id m))) cfg)
             = Inr created" and
    m': "after (create_resource t cfg lg m) =
           m\<lparr>resources := AList.update (str (next_id m))
                           (if lg then new_LoggingDecorator created else created) (resources m),
             next_id := next_id m + 1\<rparr>"
    by auto
  have fresh: "get_resource rid m = None"
    using issued_below_fresh [OF inv, of 0] rid by simp
  have stored: "get_resource rid (after (create_resource t cfg lg m))
      = Some (if lg then new_LoggingDecorator created else created)"
    by (simp add: m' rid get_resource_def update_conv')
  from rid fresh made stored m' show ?thesis by auto
qed

text \<open>
  Claim C9. In every reachable world: a \<open>create_resource\<close> call that returns an id returns
  the numeral of the counter, which no stored resource had, stores the new resource
  (decorated when logging is enabled) under it and advances the counter by one; the ids
  returned by the successful \<open>create_resource\<close> calls of any sequence of calls, failed
  attempts included, are the consecutive numerals from the counter on, pairwise distinct
  and not in use before; and whatever is called, a stored resource stays under its id,
  the same resource up to its lifecycle state.
\<close>

theorem resource_ids_sequential_never_reused:
  assumes "reachable w"
  shows "(\<forall>t cfg lg rid.
            outcome (create_resource t cfg lg (mgr w)) = Inr (Some rid) \<longrightarrow>
              rid = str (next_id (mgr w)) \<and> get_resource rid (mgr w) = None \<and>
              next_id (after (create_resource t cfg lg (mgr w))) = next_id (mgr w) + 1 \<and>
              (\<exists>created.
                 factory_create_resource (factory (mgr w)) t (AList.update ''id'' (VStr rid) cfg)
                   = Inr created \<and>
                 get_resource rid (after (create_resource t cfg lg (mgr w)))
                   = Some (if lg then new_LoggingDecorator created else created))) \<and>
         (\<forall>cs. created_ids cs w
                  = map (\<lambda>k. str (next_id (mgr w) + int k)) [0..<length (created_ids cs w)] \<and>
               distinct (created_ids cs w) \<and>
               (\<forall>rid \<in> set (created_ids cs w). get_resource rid (mgr w) = None)) \<and>
         (\<forall>cs rid r.
            get_resource rid (mgr w) = Some r \<longrightarrow>
              (\<exists>r'. get_resource rid (mgr (exec_all cs w)) = Some r' \<and>
                    set_state CreatedState r' = set_state CreatedState r))"
proof -
  from assms have inv: "issued_below (mgr w)"
    by (rule reachable_issued_below)
  have one: "\<forall>t cfg lg rid.
            outcome (create_resource t cfg lg (mgr w)) = Inr (Some rid) \<longrightarrow>
              rid = str (next_id (mgr w)) \<and> get_resource rid (mgr w) = None \<and>
              next_id (after (create_resource t cfg lg (mgr w))) = next_id (mgr w) + 1 \<and>
              (\<exists>created.
                 factory_create_resource (factory (mgr w)) t (AList.update ''id'' (VStr rid) cfg)
                   = Inr created \<and>
                 get_resource rid (after (create_resource t cfg lg (mgr w)))
                   = Some (if lg then new_LoggingDecorator created else created))"
    using create_resource_stores [OF inv] by blast
  have two: "\<forall>cs. created_ids cs w
                  = map (\<lambda>k. str (next_id (mgr w) + int k)) [0..<length (created_ids cs w)] \<and>
               distinct (created_ids cs w) \<and>
               (\<forall>rid \<in> set (created_ids cs w). get_resource rid (mgr w) = None)"
    using created_ids_sequential [of _ w] created_ids_distinct [of _ w] created_ids_fresh [OF inv]
    by blast
  have three: "\<forall>cs rid r.
            get_resource rid (mgr w) = Some r \<longrightarrow>
              (\<exists>r'. get_resource rid (mgr (exec_all cs w)) = Some r' \<and>
                    set_state CreatedState r' = set_state CreatedState r)"
    using exec_all_keeps_resource [OF inv] by blast
  from one two three show ?thesis by blast
qed

theorem resource_ids_sequential_never_reused_witness:
  "reachable \<lparr>files = (\<lambda>p. []),
              mgr = new_ResourceManager (UserRepository ''users.json'')
                      (ServiceLogin ''https://auth.example.com'' ''key'')\<rparr> \<and>
   created_ids
     [RegisterUser ''bob'' ''pw'' ''user'',
      Login ''bob'' ''pw'',
      CreateResource ''Database'' [(''name'', VStr ''db'')] False,
      CreateResource ''StorageAccount''
        [(''name'', VStr ''logs''), (''encryption_enabled'', VBool True), (''max_size_gb'', VInt 5)] True,
      DeleteResource ''1'',
      CreateResource ''CacheDB''
        [(''name'', VStr ''sessions''), (''ttl_seconds'', VInt 3600), (''capacity_mb'', VInt 512)] False]
     \<lparr>files = (\<lambda>p. []),
      mgr = new_ResourceManager (UserRepository ''users.json'')
              (ServiceLogin ''https://auth.example.com'' ''key'')\<rparr>
     = [''1'', ''2''] \<and>
   distinct (created_ids
     [RegisterUser ''bob'' ''pw'' ''user'',
      Login ''bob'' ''pw'',
      CreateResource ''Database'' [(''name'', VStr ''db'')] False,
      CreateResource ''StorageAccount''
        [(''name'', VStr ''logs''), (''encryption_enabled'', VBool True), (''max_size_gb'', VInt 5)] True,
      DeleteResource ''1'',
      CreateResource ''CacheDB''
        [(''name'', VStr ''sessions''), (''ttl_seconds'', VInt 3600), (''capacity_mb'', VInt 512)] False]
     \<lparr>files = (\<lambda>p. []),
      mgr = new_ResourceManager (UserRepository ''users.json'')
              (ServiceLogin ''https://auth.example.com'' ''key'')\<rparr>)"
proof -
  let ?w = "\<lparr>files = (\<lambda>p. []),
              mgr = new_ResourceManager (UserRepository ''users.json'')
                      (ServiceLogin ''https://auth.example.com'' ''key'')\<rparr>"
  have r: "reachable ?w"
    by (rule reachable.constructed)
  have ids: "created_ids
     [RegisterUser ''bob'' ''pw'' ''user'',
      Login ''bob'' ''pw'',
      CreateResource ''Database'' [(''name'', VStr ''db'')] False,
      CreateResource ''StorageAccount''
        [(''name'', VStr ''logs''), (''encryption_enabled'', VBool True), (''max_size_gb'', VInt 5)] True,
      DeleteResource ''1'',
      CreateResource ''CacheDB''
        [(''name'', VStr ''sessions''), (''ttl_seconds'', VInt 3600), (''capacity_mb'', VInt 512)] False]
     ?w = [''1'', ''2'']"
    by (simp add: on_mgr_def opt_ret_def register_user_def add_user_def read_data_def write_data_def
        to_dict_def login_def find_by_username_def from_dict_def new_ResourceManager_def
        create_resource_def is_authenticated_def factory_create_resource_def registry_new
        and_then_def item_def get_default_def str_small delete_resource_def lifecycle_call_def
        get_resource_def new_LoggingDecorator_def Let_def)
  from r ids resource_ids_sequential_never_reused [OF r] show ?thesis
    by blast
qed

end
